theory Spec2Isabelle
  imports Main "HOL-Library.AList"
begin

section \<open>Values\<close>

text \<open>
  The values that travel through the dispatcher (the invocation event, the decoded request
  body, what a route function returns, log fields, header values) are Python objects read
  from or written to JSON. A dict keeps its insertion order, so it is an association list;
  its keys are distinct in Python and lookups go through \<open>map_of\<close>. Floats are left out.
\<close>

datatype json =
    JNull
  | JBool bool
  | JInt int
  | JStr string
  | JList "json list"
  | JDict "(string \<times> json) list"

text \<open>\<open>HTTPException\<close> of \<open>exceptions.py\<close>: the slots set by \<open>__init__\<close>. The public and the
  private detail are texts when they are given (the properties are declared to return
  \<open>str\<close>), \<open>None\<close> otherwise.\<close>

record http_exception =
  exc_status_code :: int
  exc_detail :: "string option"
  exc_headers :: "(string \<times> json) list option"
  exc_error_detail :: "string option"

text \<open>Everything the dispatcher can see raised. \<open>HTTPException\<close> and \<open>ValidationError\<close> are
  the two classes \<open>Handler.__call__\<close> catches; the others are the Python faults the code
  itself can raise (\<open>KeyError\<close>, \<open>TypeError\<close>, \<open>ValueError\<close>, the \<open>TimeoutError\<close> of
  \<open>asyncio.wait_for\<close>) and any other fault of a route function.\<close>

datatype exception =
    HTTPException http_exception
  | ValidationError json
  | KeyError
  | TypeError
  | ValueError string
  | TimeoutError
  | OtherError string

fun is_HTTPException :: "exception \<Rightarrow> bool" where
  "is_HTTPException (HTTPException _) = True"
| "is_HTTPException _ = False"

fun is_ValidationError :: "exception \<Rightarrow> bool" where
  "is_ValidationError (ValidationError _) = True"
| "is_ValidationError _ = False"

text \<open>\<open>obj[key]\<close> with a string key: a dict raises \<open>KeyError\<close> on a missing key, a list, a
  string, a number and \<open>None\<close> raise \<open>TypeError\<close>.\<close>

fun getitem :: "json \<Rightarrow> string \<Rightarrow> exception + json" where
  "getitem (JDict kvs) k = (case map_of kvs k of None \<Rightarrow> Inl KeyError | Some v \<Rightarrow> Inr v)"
| "getitem _ k = Inl TypeError"

text \<open>\<open>d[key]\<close> on a dict whose keys are all strings, with any decoded value as the key: a
  list or a dict is unhashable (\<open>TypeError\<close>), any other value that is not a string is
  equal to no key.\<close>

fun dict_lookup :: "(string \<rightharpoonup> 'v) \<Rightarrow> json \<Rightarrow> exception + 'v" where
  "dict_lookup d (JStr k) = (case d k of None \<Rightarrow> Inl KeyError | Some v \<Rightarrow> Inr v)"
| "dict_lookup d (JList _) = Inl TypeError"
| "dict_lookup d (JDict _) = Inl TypeError"
| "dict_lookup d _ = Inl KeyError"

section \<open>Event to route\<close>

text \<open>\<open>Handler._get_route_from_event\<close>. The \<open>try\<close> block catches the \<open>KeyError\<close> of
  \<open>request_context["http"]\<close> only.\<close>

definition get_route_from_event :: "json \<Rightarrow> exception + (json \<times> json)" where
  "get_route_from_event event =
     (case getitem event ''requestContext'' of
        Inl e \<Rightarrow> Inl e
      | Inr request_context \<Rightarrow>
          (case getitem request_context ''http'' of
             Inl KeyError \<Rightarrow>
               (case getitem request_context ''httpMethod'' of
                  Inl e \<Rightarrow> Inl e
                | Inr method \<Rightarrow>
                    (case getitem request_context ''path'' of
                       Inl e \<Rightarrow> Inl e
                     | Inr path \<Rightarrow> Inr (method, path)))
           | Inl e \<Rightarrow> Inl e
           | Inr http \<Rightarrow>
               (case getitem http ''method'' of
                  Inl e \<Rightarrow> Inl e
                | Inr method \<Rightarrow>
                    (case getitem http ''path'' of
                       Inl e \<Rightarrow> Inl e
                     | Inr path \<Rightarrow> Inr (method, path)))))"

section \<open>Text of numbers and of JSON\<close>

definition digit :: "nat \<Rightarrow> char" where
  "digit d = ''0123456789abcdef'' ! d"

text \<open>Python's \<open>str\<close> of an integer: its decimal digits, with a minus sign when negative.\<close>

function str_nat :: "nat \<Rightarrow> string" where
  "str_nat n = (if n < 10 then [digit n] else str_nat (n div 10) @ [digit (n mod 10)])"
  by pat_completeness auto
termination
  by (relation "measure id") auto

declare str_nat.simps [simp del]

definition str_int :: "int \<Rightarrow> string" where
  "str_int i = (if i < 0 then CHR ''-'' # str_nat (nat (- i)) else str_nat (nat i))"

fun join :: "string \<Rightarrow> string list \<Rightarrow> string" where
  "join sep [] = []"
| "join sep [x] = x"
| "join sep (x # y # ys) = x @ sep @ join sep (y # ys)"

definition escape_char :: "char \<Rightarrow> string" where
  "escape_char c =
     (if c = CHR 0x22 then [CHR 0x5C, CHR 0x22]
      else if c = CHR 0x5C then [CHR 0x5C, CHR 0x5C]
      else if c = CHR 0x0A then [CHR 0x5C, CHR ''n'']
      else if c = CHR 0x0D then [CHR 0x5C, CHR ''r'']
      else if c = CHR 0x09 then [CHR 0x5C, CHR ''t'']
      else if c = CHR 0x08 then [CHR 0x5C, CHR ''b'']
      else if c = CHR 0x0C then [CHR 0x5C, CHR ''f'']
      else if (of_char c :: nat) < 32
        then [CHR 0x5C, CHR ''u'', CHR ''0'', CHR ''0'',
              digit (of_char c div 16), digit (of_char c mod 16)]
      else [c])"

definition quote :: "string \<Rightarrow> string" where
  "quote s = CHR 0x22 # concat (map escape_char s) @ [CHR 0x22]"

text \<open>
  Modelled from the spec: \<open>aio_lambda_api.json.dumps\<close> is not among the sources. The spec
  has the render step "serialize a domain value to wire bytes" and gives the serialized
  texts \<open>{"detail":"Not Found"}\<close> and \<open>"get"\<close> (content-length 5): JSON text with no space
  after a comma or a colon, keys in the dict's order, strings quoted with the JSON escapes.
\<close>

fun dumps :: "json \<Rightarrow> string" where
  "dumps JNull = ''null''"
| "dumps (JBool b) = (if b then ''true'' else ''false'')"
| "dumps (JInt i) = str_int i"
| "dumps (JStr s) = quote s"
| "dumps (JList xs) = ''['' @ join '','' (map dumps xs) @ '']''"
| "dumps (JDict kvs) =
     ''{'' @ join '','' (map (\<lambda>(k, v). quote k @ '':'' @ dumps v) kvs) @ ''}''"

text \<open>\<open>base64.b64encode\<close> of the standard library, on bytes given as characters.\<close>

definition b64_char :: "nat \<Rightarrow> char" where
  "b64_char i =
     ''ABCDEFGHIJKLMNOPQRSTUVWXYZabcdefghijklmnopqrstuvwxyz0123456789+/'' ! i"

fun b64encode :: "string \<Rightarrow> string" where
  "b64encode [] = []"
| "b64encode [a] =
     (let x = (of_char a :: nat)
      in [b64_char (x div 4), b64_char ((x mod 4) * 16), CHR ''='', CHR ''=''])"
| "b64encode [a, b] =
     (let x = (of_char a :: nat); y = (of_char b :: nat)
      in [b64_char (x div 4), b64_char ((x mod 4) * 16 + y div 16),
          b64_char ((y mod 16) * 4), CHR ''=''])"
| "b64encode (a # b # c # rest) =
     (let x = (of_char a :: nat); y = (of_char b :: nat); z = (of_char c :: nat)
      in [b64_char (x div 4), b64_char ((x mod 4) * 16 + y div 16),
          b64_char ((y mod 16) * 4 + z div 64), b64_char (z mod 64)] @ b64encode rest)"

section \<open>Status messages\<close>

text \<open>
  Modelled from the spec: \<open>aio_lambda_api.status.get_status_message\<close> is not among the
  sources. The spec calls its result the "human-readable reason phrase for the status code"
  and names the phrases of 404 and 405; the repository's tests name those of 400, 401 and
  503. The phrase of every other code is the parameter \<open>phrase\<close>.
\<close>

definition get_status_message :: "(int \<Rightarrow> string) \<Rightarrow> int \<Rightarrow> string" where
  "get_status_message phrase status_code =
     (if status_code = 400 then ''Bad Request''
      else if status_code = 401 then ''Unauthorized''
      else if status_code = 404 then ''Not Found''
      else if status_code = 405 then ''Method Not Allowed''
      else if status_code = 503 then ''Service Unavailable''
      else phrase status_code)"

section \<open>The error model\<close>

text \<open>\<open>HTTPException.__init__\<close>.\<close>

definition HTTPException_init ::
  "int \<Rightarrow> string option \<Rightarrow> (string \<times> json) list option \<Rightarrow> string option \<Rightarrow> http_exception"
where
  "HTTPException_init status_code detail headers error_detail =
     \<lparr>exc_status_code = status_code, exc_detail = detail, exc_headers = headers,
      exc_error_detail = error_detail\<rparr>"

text \<open>Truth value of an optional text: \<open>None\<close> and the empty string are false.\<close>

fun truthy :: "string option \<Rightarrow> bool" where
  "truthy None = False"
| "truthy (Some s) = (s \<noteq> [])"

text \<open>The property \<open>HTTPException.detail\<close>: \<open>self._detail or get_status_message(...)\<close>.\<close>

definition detail :: "(int \<Rightarrow> string) \<Rightarrow> http_exception \<Rightarrow> string" where
  "detail phrase exc =
     (if truthy (exc_detail exc) then the (exc_detail exc)
      else get_status_message phrase (exc_status_code exc))"

text \<open>The property \<open>HTTPException.error_detail\<close>.\<close>

definition error_detail :: "http_exception \<Rightarrow> string option" where
  "error_detail exc =
     (if truthy (exc_error_detail exc) then exc_error_detail exc
      else if truthy (exc_detail exc) then exc_detail exc
      else None)"

section \<open>Requests and responses\<close>

text \<open>The content of a response: a JSON value (\<open>Data JNull\<close> is Python's \<open>None\<close>) or
  bytes; and what \<open>render\<close> gives: text or bytes.\<close>

datatype content = Data json | Raw string

datatype rendered = Text string | Binary string

text \<open>
  Modelled from the spec: the class \<open>Response\<close> of \<open>aio_lambda_api.responses\<close> is not among
  the sources. The spec gives it a mutable status code, a mapping of headers, a content, an
  optional media type and the render step; \<open>render\<close> is a method, so the object carries it.
\<close>

record response =
  response_status_code :: int
  response_headers :: "string \<rightharpoonup> json"
  response_content :: content
  response_media_type :: "string option"
  response_render :: "content \<Rightarrow> rendered"

text \<open>
  Modelled from the spec: \<open>JSONResponse.render\<close> is not among the sources; it serializes
  the content to JSON text (the envelope of a JSON response is never base64-encoded). The
  spec says nothing of a JSON response whose content is bytes; they are taken as the text.
\<close>

fun JSONResponse_render :: "content \<Rightarrow> rendered" where
  "JSONResponse_render (Data j) = Text (dumps j)"
| "JSONResponse_render (Raw b) = Text b"

text \<open>
  Modelled from the spec: the constructor \<open>JSONResponse(content=None, status_code=...)\<close> is
  not among the sources: no header yet, the media type \<open>application/json\<close>.
\<close>

definition JSONResponse :: "json \<Rightarrow> int \<Rightarrow> response" where
  "JSONResponse c status_code =
     \<lparr>response_status_code = status_code, response_headers = Map.empty,
      response_content = Data c, response_media_type = Some ''application/json'',
      response_render = JSONResponse_render\<rparr>"

text \<open>The Lambda context: the dispatcher reads \<open>aws_request_id\<close> only.\<close>

record lambda_context =
  aws_request_id :: string

text \<open>
  Modelled from the spec: the class \<open>Request\<close> of \<open>aio_lambda_api.requests\<close> is not among the
  sources. It is a view over the event and the context with derived headers and a derived
  body; the dispatcher reads \<open>request.headers[...]\<close> and calls \<open>request.json()\<close>, whose
  result (the decoded body, or the fault of decoding) is the field \<open>request_json\<close>.
\<close>

record request =
  request_event :: json
  request_lambda_context :: lambda_context
  request_headers :: "string \<rightharpoonup> json"
  request_json :: "exception + json"

section \<open>Route functions\<close>

text \<open>What a route function may return: a value for the content (\<open>Returns JNull\<close> is a
  function that returns nothing), or a whole \<open>Response\<close>.\<close>

datatype returned = Returns json | ReturnsResponse response

text \<open>
  The coroutine a route function gives when called, by what happens when the event loop
  runs it under \<open>wait_for\<close>: it completes, having changed the \<open>Response\<close> object it was
  given (the function is the identity when it was given none or left it alone), it raises,
  or it is not done within \<open>FUNCTION_TIMEOUT\<close>.
\<close>

datatype coroutine =
    Completes returned "response \<Rightarrow> response"
  | Raises exception
  | Exceeds_timeout

datatype arg = Body json | Req request | Resp response

type_synonym kwargs = "string \<rightharpoonup> arg"

text \<open>A parameter annotation, by the two tests \<open>_check_signature\<close> makes on it.\<close>

record annotation =
  is_type :: bool
  subclass_of_Request :: bool
  subclass_of_Response :: bool

text \<open>A callable: its signature, and what calling it with keyword arguments does (it
  raises, a \<open>TypeError\<close> on an unexpected keyword for instance, or gives a coroutine).\<close>

record callable =
  parameters :: "(string \<times> annotation) list"
  call :: "kwargs \<Rightarrow> exception + coroutine"

text \<open>The two classes \<open>_check_signature\<close> stores as injection kinds.\<close>

datatype param_cls = Request_cls | Response_cls

text \<open>\<open>_APIRoute\<close>.\<close>

record APIRoute =
  route_status_code :: int
  route_func :: callable
  route_params :: "(string \<times> param_cls) list"

type_synonym routes = "string \<rightharpoonup> (string \<rightharpoonup> APIRoute)"

type_synonym log = "string \<rightharpoonup> json"

text \<open>
  What the dispatcher takes from modules that are not among the sources:
  \<^item> \<open>phrase\<close>: the reason phrases \<open>get_status_message\<close> does not fix above;
  \<^item> \<open>validate_arguments\<close>: pydantic's decorator, \<open>None\<close> when the import failed;
  \<^item> \<open>Request\<close>: the constructor of the request class;
  \<^item> \<open>logger\<close>: the fields of the logging scope when it opens.
\<close>

record env =
  phrase :: "int \<Rightarrow> string"
  validate_arguments :: "(callable \<Rightarrow> callable) option"
  Request :: "json \<Rightarrow> lambda_context \<Rightarrow> request"
  logger :: "string \<Rightarrow> log"

section \<open>Registration\<close>

text \<open>\<open>Handler._check_signature\<close>. \<open>params\<close> is a dict: assigning to a key that is there
  replaces its value in place, a new key goes last.\<close>

definition check_signature :: "callable \<Rightarrow> (string \<times> param_cls) list" where
  "check_signature func =
     fold (\<lambda>(name, annotation) params.
             if is_type annotation \<and> subclass_of_Request annotation
               then AList.update name Request_cls params
             else if is_type annotation \<and> subclass_of_Response annotation
               then AList.update name Response_cls params
             else params)
          (parameters func) []"

text \<open>\<open>Handler._api_route(path, method, status_code=...)(func)\<close>: the decorator applied
  to the function. It returns the new route table and the decorator's result, or the
  \<open>ValueError\<close> of a route that is already there (the table is then as it was).\<close>

definition api_route ::
  "env \<Rightarrow> routes \<Rightarrow> string \<Rightarrow> string \<Rightarrow> int option \<Rightarrow> callable \<Rightarrow> exception + (routes \<times> callable)"
where
  "api_route E routes path method status_code func =
     (let params = check_signature func;
          func1 = (case validate_arguments E of None \<Rightarrow> func | Some validate \<Rightarrow> validate func);
          path_routes = (case routes path of None \<Rightarrow> Map.empty | Some r \<Rightarrow> r)
      in case path_routes method of
           Some _ \<Rightarrow> Inl (ValueError (''Route already registered: '' @ method
                                    @ '' \"'' @ path @ ''\".''))
         | None \<Rightarrow>
             Inr (routes(path \<mapsto> path_routes(method \<mapsto>
                    \<lparr>route_status_code =
                       (case status_code of None \<Rightarrow> 200 | Some c \<Rightarrow> if c = 0 then 200 else c),
                     route_func = func1, route_params = params\<rparr>)),
                  func1))"

text \<open>The registration operations of \<open>Handler\<close>, one for each method.\<close>

definition Handler_delete ::
  "env \<Rightarrow> routes \<Rightarrow> string \<Rightarrow> int option \<Rightarrow> callable \<Rightarrow> exception + (routes \<times> callable)" where
  "Handler_delete E routes path status_code func =
     api_route E routes path ''DELETE'' status_code func"

definition Handler_get ::
  "env \<Rightarrow> routes \<Rightarrow> string \<Rightarrow> int option \<Rightarrow> callable \<Rightarrow> exception + (routes \<times> callable)" where
  "Handler_get E routes path status_code func =
     api_route E routes path ''GET'' status_code func"

definition Handler_head ::
  "env \<Rightarrow> routes \<Rightarrow> string \<Rightarrow> int option \<Rightarrow> callable \<Rightarrow> exception + (routes \<times> callable)" where
  "Handler_head E routes path status_code func =
     api_route E routes path ''HEAD'' status_code func"

definition Handler_options ::
  "env \<Rightarrow> routes \<Rightarrow> string \<Rightarrow> int option \<Rightarrow> callable \<Rightarrow> exception + (routes \<times> callable)" where
  "Handler_options E routes path status_code func =
     api_route E routes path ''OPTIONS'' status_code func"

definition Handler_patch ::
  "env \<Rightarrow> routes \<Rightarrow> string \<Rightarrow> int option \<Rightarrow> callable \<Rightarrow> exception + (routes \<times> callable)" where
  "Handler_patch E routes path status_code func =
     api_route E routes path ''PATCH'' status_code func"

definition Handler_post ::
  "env \<Rightarrow> routes \<Rightarrow> string \<Rightarrow> int option \<Rightarrow> callable \<Rightarrow> exception + (routes \<times> callable)" where
  "Handler_post E routes path status_code func =
     api_route E routes path ''POST'' status_code func"

definition Handler_put ::
  "env \<Rightarrow> routes \<Rightarrow> string \<Rightarrow> int option \<Rightarrow> callable \<Rightarrow> exception + (routes \<times> callable)" where
  "Handler_put E routes path status_code func =
     api_route E routes path ''PUT'' status_code func"

section \<open>The dispatcher\<close>

text \<open>The loop of \<open>_prepare_request\<close> over \<open>route.params.items()\<close>.\<close>

definition inject_params ::
  "(string \<times> param_cls) list \<Rightarrow> request \<Rightarrow> response \<Rightarrow> kwargs \<Rightarrow> kwargs" where
  "inject_params params request response kwargs =
     fold (\<lambda>(param_name, param_cls) kw.
             if param_cls = Request_cls then kw(param_name \<mapsto> Req request)
             else if param_cls = Response_cls then kw(param_name \<mapsto> Resp response)
             else kw)
          params kwargs"

text \<open>\<open>body.copy() if isinstance(body, dict) else dict()\<close>.\<close>

fun body_kwargs :: "json \<Rightarrow> kwargs" where
  "body_kwargs (JDict kvs) = (\<lambda>k. map_option Body (map_of kvs k))"
| "body_kwargs _ = Map.empty"

text \<open>\<open>Handler._prepare_request\<close>. Each \<open>try\<close> catches the \<open>KeyError\<close> of its lookup only;
  the last line calls the route function, which gives the coroutine or raises.\<close>

definition prepare_request ::
  "env \<Rightarrow> routes \<Rightarrow> json \<Rightarrow> json \<Rightarrow> json \<Rightarrow> lambda_context
     \<Rightarrow> exception + (request \<times> response \<times> coroutine)"
where
  "prepare_request E routes path method event context =
     (case dict_lookup routes path of
        Inl KeyError \<Rightarrow> Inl (HTTPException (HTTPException_init 404 None None None))
      | Inl e \<Rightarrow> Inl e
      | Inr path_routes \<Rightarrow>
          (case dict_lookup path_routes method of
             Inl KeyError \<Rightarrow> Inl (HTTPException (HTTPException_init 405 None None None))
           | Inl e \<Rightarrow> Inl e
           | Inr route \<Rightarrow>
               (let request = Request E event context;
                    response = JSONResponse JNull (route_status_code route)
                in case request_json request of
                     Inl e \<Rightarrow> Inl e
                   | Inr body0 \<Rightarrow>
                       (let kwargs = inject_params (route_params route) request response
                                       (body_kwargs body0)
                        in case call (route_func route) kwargs of
                             Inl e \<Rightarrow> Inl e
                           | Inr coro \<Rightarrow> Inr (request, response, coro)))))"

text \<open>The response envelope: the dict \<open>_prepare_response\<close> returns.\<close>

record envelope =
  body :: "string option"
  statusCode :: string
  headers :: "string \<rightharpoonup> json"
  isBase64Encoded :: bool

text \<open>\<open>len(body)\<close> of the rendered body: the number of bytes, or of characters of a
  text (a character of \<open>string\<close> is one byte, so the two agree on ASCII text).\<close>

fun len :: "rendered \<Rightarrow> nat" where
  "len (Text t) = length t"
| "len (Binary b) = length b"

text \<open>
  \<open>Handler._prepare_response\<close>, with the logging scope passed in and returned.
  Modelled from the spec: \<open>_context_log.get()\<close> (module \<open>aio_lambda_api.logging\<close>, not among
  the sources) gives the field mapping of the invocation's logging scope, the one
  \<open>__call__\<close> writes to.
\<close>

definition prepare_response :: "env \<Rightarrow> response \<Rightarrow> log \<Rightarrow> envelope \<times> log" where
  "prepare_response E response log0 =
     (let status_code0 = response_status_code response;
          headers0 = response_headers response;
          body0 = response_content response;
          (status_code1, body1) =
            (if body0 = Data JNull then
               (if status_code0 = 200 then (204, body0)
                else if status_code0 \<ge> 400 then
                  (status_code0,
                   Data (JDict [(''details'',
                                 JStr (get_status_message (phrase E) status_code0))]))
                else (status_code0, body0))
             else (status_code0, body0));
          (body2, headers2, is_base64_encoded) =
            (if body1 \<noteq> Data JNull then
               (let rendered = response_render response body1;
                    headers1 = headers0(''content-length'' \<mapsto> JStr (str_nat (len rendered)));
                    headers2 = (case response_media_type response of
                                  None \<Rightarrow> headers1
                                | Some media_type \<Rightarrow> headers1(''content-type'' \<mapsto> JStr media_type))
                in case rendered of
                     Binary b \<Rightarrow> (Some (b64encode b), headers2, True)
                   | Text t \<Rightarrow> (Some t, headers2, False))
             else (None, headers0, False));
          log1 = log0(''status_code'' \<mapsto> JInt status_code1);
          headers3 = (case log1 ''request_id'' of
                        None \<Rightarrow> headers2
                      | Some request_id \<Rightarrow> headers2(''x-request-id'' \<mapsto> request_id))
      in (\<lparr>body = body2, statusCode = str_int status_code1, headers = headers3,
           isBase64Encoded = is_base64_encoded\<rparr>, log1))"

text \<open>\<open>self.run_async(wait_for(func, FUNCTION_TIMEOUT))\<close>: the result of the coroutine
  with what it did to the response, its exception, or the \<open>TimeoutError\<close> of \<open>wait_for\<close>.\<close>

fun run_async_wait_for :: "coroutine \<Rightarrow> exception + (returned \<times> (response \<Rightarrow> response))" where
  "run_async_wait_for (Completes r mutate) = Inr (r, mutate)"
| "run_async_wait_for (Raises e) = Inl e"
| "run_async_wait_for Exceeds_timeout = Inl TimeoutError"

text \<open>\<open>Handler._call_route_function\<close>.\<close>

definition call_route_function ::
  "env \<Rightarrow> coroutine \<Rightarrow> response \<Rightarrow> log \<Rightarrow> (exception + envelope) \<times> log" where
  "call_route_function E func response log0 =
     (case run_async_wait_for func of
        Inl e \<Rightarrow> (Inl e, log0)
      | Inr (content0, mutate) \<Rightarrow>
          (let response0 = mutate response;
               response1 = (case content0 of
                              ReturnsResponse r \<Rightarrow> r
                            | Returns c \<Rightarrow> response0\<lparr>response_content := Data c\<rparr>);
               (env0, log1) = prepare_response E response1 log0
           in (Inr env0, log1)))"

text \<open>The first inner \<open>try\<close> of \<open>Handler.__call__\<close>: the value stored as
  \<open>log["request_id"]\<close>, from the header \<open>x-request-id\<close> or, on its \<open>KeyError\<close>, from
  \<open>event["requestContext"]["requestId"]\<close>, whose own faults are not caught there.\<close>

definition request_id_of :: "request \<Rightarrow> json \<Rightarrow> exception + json" where
  "request_id_of request event =
     (case request_headers request ''x-request-id'' of
        Some v \<Rightarrow> Inr v
      | None \<Rightarrow>
          (case getitem event ''requestContext'' of
             Inl e \<Rightarrow> Inl e
           | Inr request_context \<Rightarrow> getitem request_context ''requestId''))"

text \<open>The body of the outer \<open>try\<close> of \<open>Handler.__call__\<close>: its result or the exception it
  raises, with the fields of the logging scope at that moment.\<close>

definition try_body ::
  "env \<Rightarrow> routes \<Rightarrow> json \<Rightarrow> json \<Rightarrow> json \<Rightarrow> lambda_context \<Rightarrow> log
     \<Rightarrow> (exception + envelope) \<times> log"
where
  "try_body E routes method path event context log0 =
     (let log1 = log0(''method'' \<mapsto> method);
          log2 = log1(''path'' \<mapsto> path)
      in case prepare_request E routes path method event context of
           Inl e \<Rightarrow> (Inl e, log2)
         | Inr (request, response, func) \<Rightarrow>
             (case request_id_of request event of
                Inl e \<Rightarrow> (Inl e, log2)
              | Inr request_id \<Rightarrow>
                  (let log3 = log2(''request_id'' \<mapsto> request_id);
                       log4 = (case request_headers request ''user-agent'' of
                                 None \<Rightarrow> log3
                               | Some user_agent \<Rightarrow> log3(''user_agent'' \<mapsto> user_agent))
                   in call_route_function E func response log4)))"

text \<open>
  \<open>Handler.__call__\<close>: the envelope, or the exception that leaves the call, and the fields
  of the logging scope when the \<open>with\<close> block is left (\<open>None\<close> when the event gave no route
  and the scope was never opened).
  Modelled from the spec: the logging scope (\<open>aio_lambda_api.logging.logger\<close>, not among the
  sources) lets a fault pass when it closes; what it records then is not part of this
  function.
\<close>

definition Handler_call ::
  "env \<Rightarrow> routes \<Rightarrow> json \<Rightarrow> lambda_context \<Rightarrow> (exception + envelope) \<times> log option" where
  "Handler_call E routes event context =
     (case get_route_from_event event of
        Inl e \<Rightarrow> (Inl e, None)
      | Inr (method, path) \<Rightarrow>
          (case try_body E routes method path event context
                  (logger E (aws_request_id context)) of
             (Inr env0, log1) \<Rightarrow> (Inr env0, Some log1)
           | (Inl (HTTPException exception), log1) \<Rightarrow>
               (let error_detail0 = error_detail exception;
                    log2 = (if truthy error_detail0
                            then log1(''error_detail'' \<mapsto> JStr (the error_detail0))
                            else log1);
                    log3 = log2(''status_code'' \<mapsto> JInt (exc_status_code exception));
                    log4 = (if exc_status_code exception \<ge> 500
                              then log3(''level'' \<mapsto> JStr ''error'')
                            else if exc_status_code exception \<ge> 400
                              then log3(''level'' \<mapsto> JStr ''warning'')
                            else log3);
                    (env0, log5) =
                      prepare_response E
                        (JSONResponse
                           (JDict [(''detail'', JStr (detail (phrase E) exception))])
                           (exc_status_code exception))
                        log4
                in (Inr env0, Some log5))
           | (Inl (ValidationError errors), log1) \<Rightarrow>
               (let log2 = log1(''error_detail'' \<mapsto> JStr (dumps errors));
                    log3 = log2(''status_code'' \<mapsto> JInt 422);
                    log4 = log3(''level'' \<mapsto> JStr ''warning'');
                    (env0, log5) =
                      prepare_response E (JSONResponse (JDict [(''detail'', errors)]) 422) log4
                in (Inr env0, Some log5))
           | (Inl e, log1) \<Rightarrow> (Inl e, Some log1)))"

section \<open>Example invocations\<close>

text \<open>Concrete routes, events and collaborators at which the theorems below are
  instantiated. The example request class takes the event's \<open>body\<close> field as the decoded
  body and the event's \<open>headers\<close> as they are.\<close>

definition example_Request :: "json \<Rightarrow> lambda_context \<Rightarrow> request" where
  "example_Request event context =
     \<lparr>request_event = event, request_lambda_context = context,
      request_headers = (case getitem event ''headers'' of
                           Inr (JDict kvs) \<Rightarrow> map_of kvs
                         | _ \<Rightarrow> Map.empty),
      request_json = (case getitem event ''body'' of Inr b \<Rightarrow> Inr b | Inl _ \<Rightarrow> Inr JNull)\<rparr>"

text \<open>Collaborators with no validation decorator; the scope opens with the request id.\<close>

definition example_env :: env where
  "example_env =
     \<lparr>phrase = (\<lambda>_. ''Unknown''), validate_arguments = None, Request = example_Request,
      logger = (\<lambda>request_id. [''aws_request_id'' \<mapsto> JStr request_id])\<rparr>"

definition example_context :: lambda_context where
  "example_context = \<lparr>aws_request_id = ''a1''\<rparr>"

text \<open>An event of the shape with a nested "http" object, and one of the other shape whose
  top-level fields differ from those of its request context.\<close>

definition event_of :: "string \<Rightarrow> string \<Rightarrow> json \<Rightarrow> json" where
  "event_of method path body0 =
     JDict [(''requestContext'',
               JDict [(''http'', JDict [(''method'', JStr method), (''path'', JStr path)]),
                      (''requestId'', JStr ''r2'')]),
            (''body'', body0)]"

definition rest_event :: json where
  "rest_event =
     JDict [(''requestContext'',
               JDict [(''httpMethod'', JStr ''POST''), (''path'', JStr ''/prod/x''),
                      (''requestId'', JStr ''r1'')]),
            (''httpMethod'', JStr ''GET''),
            (''path'', JStr ''/x'')]"

text \<open>The table after \<open>@handler.get("/x")\<close> on a function that returns "get".\<close>

definition get_x :: callable where
  "get_x = \<lparr>parameters = [], call = (\<lambda>kwargs. Inr (Completes (Returns (JStr ''get'')) id))\<rparr>"

definition example_routes :: routes where
  "example_routes =
     [''/x'' \<mapsto> [''GET'' \<mapsto> \<lparr>route_status_code = 200, route_func = get_x, route_params = []\<rparr>]]"

text \<open>A function with a \<open>Request\<close>, a plain and a \<open>Response\<close> parameter, the table after
  \<open>@handler.post("/inject")\<close> on it, and a body with a field named as the first parameter.\<close>

definition inject_func :: callable where
  "inject_func =
     \<lparr>parameters =
        [(''request'', \<lparr>is_type = True, subclass_of_Request = True, subclass_of_Response = False\<rparr>),
         (''value'', \<lparr>is_type = True, subclass_of_Request = False, subclass_of_Response = False\<rparr>),
         (''response'', \<lparr>is_type = True, subclass_of_Request = False, subclass_of_Response = True\<rparr>)],
      call = (\<lambda>kwargs. case kwargs ''value'' of
                          Some (Body v) \<Rightarrow> Inr (Completes (Returns v) id)
                        | _ \<Rightarrow> Inr (Completes (Returns JNull) id))\<rparr>"

definition inject_route :: APIRoute where
  "inject_route =
     \<lparr>route_status_code = 200, route_func = inject_func,
      route_params = [(''request'', Request_cls), (''response'', Response_cls)]\<rparr>"

definition inject_routes :: routes where
  "inject_routes = [''/inject'' \<mapsto> [''POST'' \<mapsto> inject_route]]"

definition spoof_body :: "(string \<times> json) list" where
  "spoof_body = [(''request'', JStr ''spoof''), (''value'', JInt 1)]"

text \<open>A response with no content and the status code 202.\<close>

definition accepted_response :: response where
  "accepted_response =
     \<lparr>response_status_code = 202, response_headers = [''test'' \<mapsto> JStr ''test''],
      response_content = Data JNull, response_media_type = Some ''application/json'',
      response_render = JSONResponse_render\<rparr>"

text \<open>Route functions whose coroutine raises, or is not done in time, and a table of them.\<close>

definition raises :: "exception \<Rightarrow> callable" where
  "raises e = \<lparr>parameters = [], call = (\<lambda>kwargs. Inr (Raises e))\<rparr>"

definition never_done :: callable where
  "never_done = \<lparr>parameters = [], call = (\<lambda>kwargs. Inr Exceeds_timeout)\<rparr>"

definition route_of :: "callable \<Rightarrow> APIRoute" where
  "route_of func = \<lparr>route_status_code = 200, route_func = func, route_params = []\<rparr>"

definition raising_routes :: routes where
  "raising_routes =
     [''/raise_500'' \<mapsto> [''GET'' \<mapsto> route_of (raises (ValueError ''Invalid value.''))],
      ''/slow'' \<mapsto> [''GET'' \<mapsto> route_of never_done],
      ''/raise_400_empty'' \<mapsto>
        [''GET'' \<mapsto> route_of (raises (HTTPException (HTTPException_init 400 (Some []) None None)))],
      ''/raise_400_with_message'' \<mapsto>
        [''GET'' \<mapsto> route_of (raises (HTTPException
                                   (HTTPException_init 400 (Some ''Custom Error Message'') None None)))],
      ''/raise_503'' \<mapsto>
        [''GET'' \<mapsto> route_of (raises (HTTPException (HTTPException_init 503 None None None)))],
      ''/raise_400_with_detail'' \<mapsto>
        [''GET'' \<mapsto> route_of (raises (HTTPException
                                   (HTTPException_init 400 (Some ''Custom Error Message'') None
                                      (Some ''detail''))))],
      ''/raise_400_empty_private'' \<mapsto>
        [''GET'' \<mapsto> route_of (raises (HTTPException
                                   (HTTPException_init 400 (Some ''pub'') None (Some []))))],
      ''/raise_400_both_empty'' \<mapsto>
        [''GET'' \<mapsto> route_of (raises (HTTPException
                                   (HTTPException_init 400 (Some []) None (Some []))))],
      ''/raise_302'' \<mapsto>
        [''GET'' \<mapsto> route_of (raises (HTTPException (HTTPException_init 302 None None None)))]]"

text \<open>A function that returns nothing, one that sets the status code of the injected
  response to 200 and returns nothing, and the tables after \<open>@handler.get("/explicit",
  status_code=200)\<close> and \<open>@handler.get("/set", status_code=201)\<close> on them.\<close>

definition returns_nothing :: callable where
  "returns_nothing = \<lparr>parameters = [], call = (\<lambda>kwargs. Inr (Completes (Returns JNull) id))\<rparr>"

definition sets_200 :: callable where
  "sets_200 =
     \<lparr>parameters =
        [(''response'', \<lparr>is_type = True, subclass_of_Request = False, subclass_of_Response = True\<rparr>)],
      call = (\<lambda>kwargs. Inr (Completes (Returns JNull)
                                (\<lambda>response. response\<lparr>response_status_code := 200\<rparr>)))\<rparr>"

definition explicit_200_routes :: routes where
  "explicit_200_routes =
     [''/explicit'' \<mapsto> [''GET'' \<mapsto>
        \<lparr>route_status_code = 200, route_func = returns_nothing, route_params = []\<rparr>]]"

definition sets_200_routes :: routes where
  "sets_200_routes =
     [''/set'' \<mapsto> [''GET'' \<mapsto>
        \<lparr>route_status_code = 201, route_func = sets_200,
         route_params = [(''response'', Response_cls)]\<rparr>]]"

text \<open>A route function with one parameter \<open>value: int\<close> that returns it, and an example of
  a validation decorator: the wrapper it gives raises a \<open>ValidationError\<close> when the keyword
  argument \<open>value\<close> is a string, and calls the function otherwise.\<close>

definition value_func :: callable where
  "value_func =
     \<lparr>parameters =
        [(''value'', \<lparr>is_type = True, subclass_of_Request = False, subclass_of_Response = False\<rparr>)],
      call = (\<lambda>kwargs. case kwargs ''value'' of
                          Some (Body v) \<Rightarrow> Inr (Completes (Returns v) id)
                        | _ \<Rightarrow> Inl TypeError)\<rparr>"

definition validating :: "callable \<Rightarrow> callable" where
  "validating func =
     func\<lparr>call := (\<lambda>kwargs. case kwargs ''value'' of
                                Some (Body (JStr s)) \<Rightarrow>
                                  Inl (ValidationError (JList [JStr ''type_error.integer'']))
                              | _ \<Rightarrow> call func kwargs)\<rparr>"

definition validating_env :: env where
  "validating_env = example_env\<lparr>validate_arguments := Some validating\<rparr>"

section \<open>Evaluation lemmas\<close>

lemma get_status_message_404: "get_status_message ph 404 = ''Not Found''"
  by (simp add: get_status_message_def)

lemma get_status_message_405: "get_status_message ph 405 = ''Method Not Allowed''"
  by (simp add: get_status_message_def)

lemma str_int_404: "str_int 404 = ''404''"
  by (simp add: str_int_def str_nat.simps digit_def)

lemma str_int_405: "str_int 405 = ''405''"
  by (simp add: str_int_def str_nat.simps digit_def)

lemma get_route_event_of:
  "get_route_from_event (event_of m p b) = Inr (JStr m, JStr p)"
  by (simp add: event_of_def get_route_from_event_def)

text \<open>The example tables are what registration gives.\<close>

lemma example_routes_registered:
  "Handler_get example_env Map.empty ''/x'' None get_x = Inr (example_routes, get_x)"
  by (simp add: Handler_get_def api_route_def Let_def example_env_def example_routes_def
      check_signature_def get_x_def)

lemma inject_routes_registered:
  "Handler_post example_env Map.empty ''/inject'' None inject_func
     = Inr (inject_routes, inject_func)"
  by (simp add: Handler_post_def api_route_def Let_def example_env_def inject_routes_def
      inject_route_def check_signature_def inject_func_def)

section \<open>Exceptions caught by the dispatcher\<close>

text \<open>What \<open>__call__\<close> makes of an \<open>HTTPException\<close> raised in its \<open>try\<close> block: an envelope
  with the exception's status code and its public detail as the JSON body.\<close>

lemma Handler_call_HTTPException:
  assumes "get_route_from_event event = Inr (method, path)"
    and "try_body E routes method path event ctx (logger E (aws_request_id ctx))
           = (Inl (HTTPException exc), log1)"
  shows "\<exists>env0. fst (Handler_call E routes event ctx) = Inr env0
           \<and> statusCode env0 = str_int (exc_status_code exc)
           \<and> body env0 = Some (dumps (JDict [(''detail'', JStr (detail (phrase E) exc))]))
           \<and> isBase64Encoded env0 = False"
  using assms
  by (simp add: Handler_call_def prepare_response_def JSONResponse_def Let_def)

section \<open>Routing failures\<close>

text \<open>
  Claim C3. When the event gives a path and a method (both strings): if the path is
  registered for no method at all, the call returns an envelope with statusCode "404" and
  the body \<open>{"detail":"Not Found"}\<close>; if the path is registered, but not for the method, it
  returns an envelope with statusCode "405" and the body \<open>{"detail":"Method Not Allowed"}\<close>.
\<close>

theorem routing_failures:
  assumes "get_route_from_event event = Inr (JStr method, JStr path)"
  shows "(routes path = None \<longrightarrow>
            (\<exists>env0. fst (Handler_call E routes event ctx) = Inr env0
               \<and> statusCode env0 = ''404''
               \<and> body env0 = Some ''{\"detail\":\"Not Found\"}''))
       \<and> (\<forall>path_routes. routes path = Some path_routes \<and> path_routes method = None \<longrightarrow>
            (\<exists>env0. fst (Handler_call E routes event ctx) = Inr env0
               \<and> statusCode env0 = ''405''
               \<and> body env0 = Some ''{\"detail\":\"Method Not Allowed\"}''))"
proof (intro conjI allI impI)
  assume "routes path = None"
  then have "try_body E routes (JStr method) (JStr path) event ctx
               (logger E (aws_request_id ctx))
             = (Inl (HTTPException (HTTPException_init 404 None None None)),
                (logger E (aws_request_id ctx))
                  (''method'' \<mapsto> JStr method, ''path'' \<mapsto> JStr path))"
    by (simp add: try_body_def prepare_request_def)
  from Handler_call_HTTPException [OF assms this]
  show "\<exists>env0. fst (Handler_call E routes event ctx) = Inr env0
               \<and> statusCode env0 = ''404''
               \<and> body env0 = Some ''{\"detail\":\"Not Found\"}''"
    by (auto simp add: HTTPException_init_def detail_def get_status_message_404 str_int_404
          quote_def escape_char_def)
next
  fix path_routes
  assume "routes path = Some path_routes \<and> path_routes method = None"
  then have "try_body E routes (JStr method) (JStr path) event ctx
               (logger E (aws_request_id ctx))
             = (Inl (HTTPException (HTTPException_init 405 None None None)),
                (logger E (aws_request_id ctx))
                  (''method'' \<mapsto> JStr method, ''path'' \<mapsto> JStr path))"
    by (simp add: try_body_def prepare_request_def)
  from Handler_call_HTTPException [OF assms this]
  show "\<exists>env0. fst (Handler_call E routes event ctx) = Inr env0
               \<and> statusCode env0 = ''405''
               \<and> body env0 = Some ''{\"detail\":\"Method Not Allowed\"}''"
    by (auto simp add: HTTPException_init_def detail_def get_status_message_405 str_int_405
          quote_def escape_char_def)
qed

text \<open>The theorem at a table with the single route GET "/x": a GET of "/missing" and a PUT
  of "/x".\<close>

theorem routing_failures_witness:
  "get_route_from_event (event_of ''GET'' ''/missing'' JNull) = Inr (JStr ''GET'', JStr ''/missing'')
   \<and> example_routes ''/missing'' = None
   \<and> (\<exists>env0. fst (Handler_call example_env example_routes
                      (event_of ''GET'' ''/missing'' JNull) example_context) = Inr env0
          \<and> statusCode env0 = ''404''
          \<and> body env0 = Some ''{\"detail\":\"Not Found\"}'')
   \<and> get_route_from_event (event_of ''PUT'' ''/x'' JNull) = Inr (JStr ''PUT'', JStr ''/x'')
   \<and> (\<exists>path_routes. example_routes ''/x'' = Some path_routes \<and> path_routes ''PUT'' = None)
   \<and> (\<exists>env0. fst (Handler_call example_env example_routes
                      (event_of ''PUT'' ''/x'' JNull) example_context) = Inr env0
          \<and> statusCode env0 = ''405''
          \<and> body env0 = Some ''{\"detail\":\"Method Not Allowed\"}'')"
proof -
  have r1: "example_routes ''/missing'' = None"
    by (simp add: example_routes_def)
  have r2: "example_routes ''/x''
              = Some [''GET'' \<mapsto> \<lparr>route_status_code = 200, route_func = get_x, route_params = []\<rparr>]
            \<and> [''GET'' \<mapsto> \<lparr>route_status_code = 200, route_func = get_x, route_params = []\<rparr>]
                ''PUT'' = None"
    by (simp add: example_routes_def)
  have e1: "get_route_from_event (event_of ''GET'' ''/missing'' JNull)
              = Inr (JStr ''GET'', JStr ''/missing'')"
    by (rule get_route_event_of)
  have e2: "get_route_from_event (event_of ''PUT'' ''/x'' JNull) = Inr (JStr ''PUT'', JStr ''/x'')"
    by (rule get_route_event_of)
  from routing_failures [OF e1, where routes = example_routes and E = example_env
      and ctx = example_context]
    routing_failures [OF e2, where routes = example_routes and E = example_env
      and ctx = example_context]
    r1 r2 e1 e2
  show ?thesis
    by simp
qed

section \<open>The two event shapes\<close>

text \<open>
  Claim C7, as the code has it. For an event whose request context has no "http" key, the
  method and the path are the fields "httpMethod" and "path" of the request context (not of
  the event); for an event whose request context has an "http" object, they are the fields
  "method" and "path" of that object.
\<close>

theorem get_route_from_event_shapes:
  assumes "getitem event ''requestContext'' = Inr request_context"
  shows "(getitem request_context ''http'' = Inl KeyError
            \<and> getitem request_context ''httpMethod'' = Inr method
            \<and> getitem request_context ''path'' = Inr path
          \<longrightarrow> get_route_from_event event = Inr (method, path))
       \<and> (getitem request_context ''http'' = Inr http
            \<and> getitem http ''method'' = Inr method
            \<and> getitem http ''path'' = Inr path
          \<longrightarrow> get_route_from_event event = Inr (method, path))"
  using assms by (simp add: get_route_from_event_def)

theorem get_route_from_event_shapes_witness:
  "getitem rest_event ''requestContext''
     = Inr (JDict [(''httpMethod'', JStr ''POST''), (''path'', JStr ''/prod/x''),
                   (''requestId'', JStr ''r1'')])
   \<and> getitem (JDict [(''httpMethod'', JStr ''POST''), (''path'', JStr ''/prod/x''),
                     (''requestId'', JStr ''r1'')]) ''http'' = Inl KeyError
   \<and> get_route_from_event rest_event = Inr (JStr ''POST'', JStr ''/prod/x'')
   \<and> get_route_from_event (event_of ''PUT'' ''/x'' JNull) = Inr (JStr ''PUT'', JStr ''/x'')"
proof -
  let ?rc = "JDict [(''httpMethod'', JStr ''POST''), (''path'', JStr ''/prod/x''),
                    (''requestId'', JStr ''r1'')]"
  let ?http = "JDict [(''method'', JStr ''PUT''), (''path'', JStr ''/x'')]"
  let ?rc2 = "JDict [(''http'', ?http), (''requestId'', JStr ''r2'')]"
  have h1: "getitem rest_event ''requestContext'' = Inr ?rc"
    by (simp add: rest_event_def)
  have h2: "getitem (event_of ''PUT'' ''/x'' JNull) ''requestContext'' = Inr ?rc2"
    by (simp add: event_of_def)
  have a: "get_route_from_event rest_event = Inr (JStr ''POST'', JStr ''/prod/x'')"
    using get_route_from_event_shapes [OF h1, of "JStr ''POST''" "JStr ''/prod/x''"]
    by simp
  have b: "get_route_from_event (event_of ''PUT'' ''/x'' JNull) = Inr (JStr ''PUT'', JStr ''/x'')"
    using get_route_from_event_shapes [OF h2, of "JStr ''PUT''" "JStr ''/x''" ?http]
    by simp
  show ?thesis using h1 a b by simp
qed

text \<open>The claim as it was stated reads the top-level fields of the event. This event has
  the top-level fields GET and "/x", and the dispatcher extracts POST and "/prod/x", the
  fields of its request context.\<close>

theorem legacy_top_level_fields_counterexample:
  "getitem rest_event ''httpMethod'' = Inr (JStr ''GET'')
   \<and> getitem rest_event ''path'' = Inr (JStr ''/x'')
   \<and> get_route_from_event rest_event = Inr (JStr ''POST'', JStr ''/prod/x'')
   \<and> get_route_from_event rest_event \<noteq> Inr (JStr ''GET'', JStr ''/x'')"
  by (simp add: rest_event_def get_route_from_event_def)

section \<open>Keyword arguments of the route function\<close>

lemma inject_params_Nil [simp]: "inject_params [] rq rs kw = kw"
  by (simp add: inject_params_def)

lemma inject_params_Cons:
  "inject_params ((name, cls) # params) rq rs kw
     = inject_params params rq rs
         (kw(name \<mapsto> (case cls of Request_cls \<Rightarrow> Req rq | Response_cls \<Rightarrow> Resp rs)))"
  by (cases cls) (simp_all add: inject_params_def)

lemma inject_params_other:
  "name \<notin> fst ` set params \<Longrightarrow> inject_params params rq rs kw name = kw name"
proof (induction params arbitrary: kw)
  case Nil
  then show ?case by simp
next
  case (Cons p params)
  obtain n c where p: "p = (n, c)" by (cases p)
  with Cons show ?case by (auto simp add: inject_params_Cons)
qed

lemma inject_params_bound:
  "distinct (map fst params) \<Longrightarrow> (name, cls) \<in> set params \<Longrightarrow>
   inject_params params rq rs kw name
     = Some (case cls of Request_cls \<Rightarrow> Req rq | Response_cls \<Rightarrow> Resp rs)"
proof (induction params arbitrary: kw)
  case Nil
  then show ?case by simp
next
  case (Cons p params)
  obtain n c where p: "p = (n, c)" by (cases p)
  show ?case
  proof (cases "(name, cls) = p")
    case True
    with Cons.prems p have "name \<notin> fst ` set params" by auto
    with True p show ?thesis
      by (simp add: inject_params_Cons inject_params_other)
  next
    case False
    with Cons p show ?thesis
      by (auto simp add: inject_params_Cons)
  qed
qed

lemma inject_params_Body:
  "inject_params params rq rs kw name = Some (Body v) \<Longrightarrow> kw name = Some (Body v)"
proof (induction params arbitrary: kw)
  case Nil
  then show ?case by simp
next
  case (Cons p params)
  obtain n c where p: "p = (n, c)" by (cases p)
  from Cons.prems p
  have "inject_params params rq rs
          (kw(n \<mapsto> (case c of Request_cls \<Rightarrow> Req rq | Response_cls \<Rightarrow> Resp rs))) name
          = Some (Body v)"
    by (simp add: inject_params_Cons)
  then have "(kw(n \<mapsto> (case c of Request_cls \<Rightarrow> Req rq | Response_cls \<Rightarrow> Resp rs))) name
          = Some (Body v)"
    by (rule Cons.IH)
  then show ?case
    by (cases c) (auto split: if_splits)
qed

lemma dom_inject_params:
  "dom (inject_params params rq rs kw) = dom kw \<union> fst ` set params"
proof (induction params arbitrary: kw)
  case Nil
  then show ?case by simp
next
  case (Cons p params)
  obtain n c where p: "p = (n, c)" by (cases p)
  with Cons show ?case by (auto simp add: inject_params_Cons)
qed

lemma prepare_request_found:
  assumes "dict_lookup routes path = Inr path_routes"
    and "dict_lookup path_routes meth = Inr route"
    and "request_json (Request E event ctx) = Inr body0"
  shows "prepare_request E routes path meth event ctx
           = (case call (route_func route)
                     (inject_params (route_params route) (Request E event ctx)
                        (JSONResponse JNull (route_status_code route)) (body_kwargs body0)) of
                Inl e \<Rightarrow> Inl e
              | Inr coro \<Rightarrow>
                  Inr (Request E event ctx, JSONResponse JNull (route_status_code route), coro))"
  using assms by (simp add: prepare_request_def Let_def)

text \<open>
  Claim C1. When the route is found and the decoded body is a mapping with a key equal to
  the name of a parameter flagged for injection, the route function is called with keyword
  arguments in which that name is bound to the live \<open>Request\<close> (respectively \<open>Response\<close>)
  object, and never to the value of the body. The names of \<open>route.params\<close> are the keys of
  a dict, hence distinct.
\<close>

theorem injected_parameters_override_body:
  fixes E routes path meth event ctx route
  defines "request \<equiv> Request E event ctx"
    and "response \<equiv> JSONResponse JNull (route_status_code route)"
  assumes "dict_lookup routes path = Inr path_routes"
    and "dict_lookup path_routes meth = Inr route"
    and "request_json request = Inr (JDict kvs)"
    and "map_of kvs name = Some v"
    and "distinct (map fst (route_params route))"
    and "(name, cls) \<in> set (route_params route)"
  defines "kwargs \<equiv> inject_params (route_params route) request response (body_kwargs (JDict kvs))"
  shows "prepare_request E routes path meth event ctx
           = (case call (route_func route) kwargs of
                Inl e \<Rightarrow> Inl e
              | Inr coro \<Rightarrow> Inr (request, response, coro))
       \<and> kwargs name = Some (case cls of Request_cls \<Rightarrow> Req request | Response_cls \<Rightarrow> Resp response)
       \<and> kwargs name \<noteq> Some (Body v)"
proof -
  have "prepare_request E routes path meth event ctx
           = (case call (route_func route) kwargs of
                Inl e \<Rightarrow> Inl e
              | Inr coro \<Rightarrow> Inr (request, response, coro))"
    using assms(3,4,5) unfolding kwargs_def request_def response_def
    by (rule prepare_request_found)
  moreover have k: "kwargs name
      = Some (case cls of Request_cls \<Rightarrow> Req request | Response_cls \<Rightarrow> Resp response)"
    unfolding kwargs_def using assms(7,8) by (rule inject_params_bound)
  moreover from k have "kwargs name \<noteq> Some (Body v)"
    by (cases cls) simp_all
  ultimately show ?thesis by simp
qed


text \<open>The theorem at a POST of "/inject" whose body has a field "request".\<close>

theorem injected_parameters_override_body_witness:
  "dict_lookup inject_routes (JStr ''/inject'') = Inr [''POST'' \<mapsto> inject_route]
   \<and> dict_lookup [''POST'' \<mapsto> inject_route] (JStr ''POST'') = Inr inject_route
   \<and> request_json (Request example_env (event_of ''POST'' ''/inject'' (JDict spoof_body))
                      example_context) = Inr (JDict spoof_body)
   \<and> map_of spoof_body ''request'' = Some (JStr ''spoof'')
   \<and> distinct (map fst (route_params inject_route))
   \<and> (''request'', Request_cls) \<in> set (route_params inject_route)
   \<and> prepare_request example_env inject_routes (JStr ''/inject'') (JStr ''POST'')
         (event_of ''POST'' ''/inject'' (JDict spoof_body)) example_context
       = Inr (Request example_env (event_of ''POST'' ''/inject'' (JDict spoof_body)) example_context,
              JSONResponse JNull 200, Completes (Returns (JInt 1)) id)
   \<and> inject_params (route_params inject_route)
         (Request example_env (event_of ''POST'' ''/inject'' (JDict spoof_body)) example_context)
         (JSONResponse JNull 200) (body_kwargs (JDict spoof_body)) ''request''
       = Some (Req (Request example_env (event_of ''POST'' ''/inject'' (JDict spoof_body))
                      example_context))"
proof -
  let ?ev = "event_of ''POST'' ''/inject'' (JDict spoof_body)"
  have h1: "dict_lookup inject_routes (JStr ''/inject'') = Inr [''POST'' \<mapsto> inject_route]"
    by (simp add: inject_routes_def)
  have h2: "dict_lookup [''POST'' \<mapsto> inject_route] (JStr ''POST'') = Inr inject_route"
    by simp
  have h3: "request_json (Request example_env ?ev example_context) = Inr (JDict spoof_body)"
    by (simp add: example_env_def example_Request_def event_of_def)
  have h4: "map_of spoof_body ''request'' = Some (JStr ''spoof'')"
    by (simp add: spoof_body_def)
  have h5: "distinct (map fst (route_params inject_route))"
    by (simp add: inject_route_def)
  have h6: "(''request'', Request_cls) \<in> set (route_params inject_route)"
    by (simp add: inject_route_def)
  have c: "call (route_func inject_route)
             (inject_params (route_params inject_route)
                (Request example_env ?ev example_context)
                (JSONResponse JNull (route_status_code inject_route))
                (body_kwargs (JDict spoof_body)))
           = Inr (Completes (Returns (JInt 1)) id)"
    by (simp add: inject_route_def inject_func_def inject_params_Cons spoof_body_def)
  have s: "route_status_code inject_route = 200"
    by (simp add: inject_route_def)
  from injected_parameters_override_body [OF h1 h2 h3 h4 h5 h6] h1 h2 h3 h4 h5 h6 c s
  show ?thesis
    by simp
qed

lemma body_kwargs_not_dict: "\<forall>kvs. body0 \<noteq> JDict kvs \<Longrightarrow> body_kwargs body0 = Map.empty"
  by (cases body0) simp_all

text \<open>
  Claim C9. When the route is found and the decoded body is absent (\<open>None\<close>) or is not a
  mapping, merging the body raises nothing: the body gives no keyword argument, and the
  route function is called with the injected parameters only (the names of \<open>route.params\<close>,
  none of them bound to a value of the body).
\<close>

theorem non_mapping_body_gives_no_kwargs:
  fixes E routes path meth event ctx route
  defines "request \<equiv> Request E event ctx"
    and "response \<equiv> JSONResponse JNull (route_status_code route)"
  assumes "dict_lookup routes path = Inr path_routes"
    and "dict_lookup path_routes meth = Inr route"
    and "request_json request = Inr body0"
    and "\<forall>kvs. body0 \<noteq> JDict kvs"
  defines "kwargs \<equiv> inject_params (route_params route) request response Map.empty"
  shows "prepare_request E routes path meth event ctx
           = (case call (route_func route) kwargs of
                Inl e \<Rightarrow> Inl e
              | Inr coro \<Rightarrow> Inr (request, response, coro))
       \<and> body_kwargs body0 = Map.empty
       \<and> dom kwargs = fst ` set (route_params route)
       \<and> (\<forall>name v. kwargs name \<noteq> Some (Body v))"
proof -
  have b: "body_kwargs body0 = Map.empty"
    using assms(6) by (rule body_kwargs_not_dict)
  have "prepare_request E routes path meth event ctx
           = (case call (route_func route) kwargs of
                Inl e \<Rightarrow> Inl e
              | Inr coro \<Rightarrow> Inr (request, response, coro))"
    using prepare_request_found [OF assms(3,4), of E event ctx body0] assms(5)
    unfolding kwargs_def request_def response_def b by simp
  moreover have "dom kwargs = fst ` set (route_params route)"
    unfolding kwargs_def by (simp add: dom_inject_params)
  moreover have "\<forall>name v. kwargs name \<noteq> Some (Body v)"
    unfolding kwargs_def using inject_params_Body [where kw = Map.empty] by fastforce
  ultimately show ?thesis using b by simp
qed

text \<open>The theorem at a POST of "/inject" whose body is a JSON array.\<close>

theorem non_mapping_body_gives_no_kwargs_witness:
  "dict_lookup inject_routes (JStr ''/inject'') = Inr [''POST'' \<mapsto> inject_route]
   \<and> dict_lookup [''POST'' \<mapsto> inject_route] (JStr ''POST'') = Inr inject_route
   \<and> request_json (Request example_env (event_of ''POST'' ''/inject'' (JList [JInt 1]))
                      example_context) = Inr (JList [JInt 1])
   \<and> (\<forall>kvs. JList [JInt 1] \<noteq> JDict kvs)
   \<and> prepare_request example_env inject_routes (JStr ''/inject'') (JStr ''POST'')
         (event_of ''POST'' ''/inject'' (JList [JInt 1])) example_context
       = Inr (Request example_env (event_of ''POST'' ''/inject'' (JList [JInt 1])) example_context,
              JSONResponse JNull 200, Completes (Returns JNull) id)
   \<and> dom (inject_params (route_params inject_route)
              (Request example_env (event_of ''POST'' ''/inject'' (JList [JInt 1])) example_context)
              (JSONResponse JNull 200) Map.empty)
       = {''request'', ''response''}"
proof -
  let ?ev = "event_of ''POST'' ''/inject'' (JList [JInt 1])"
  have h1: "dict_lookup inject_routes (JStr ''/inject'') = Inr [''POST'' \<mapsto> inject_route]"
    by (simp add: inject_routes_def)
  have h2: "dict_lookup [''POST'' \<mapsto> inject_route] (JStr ''POST'') = Inr inject_route"
    by simp
  have h3: "request_json (Request example_env ?ev example_context) = Inr (JList [JInt 1])"
    by (simp add: example_env_def example_Request_def event_of_def)
  have h4: "\<forall>kvs. JList [JInt 1] \<noteq> JDict kvs"
    by simp
  have c: "call (route_func inject_route)
             (inject_params (route_params inject_route)
                (Request example_env ?ev example_context)
                (JSONResponse JNull (route_status_code inject_route)) Map.empty)
           = Inr (Completes (Returns JNull) id)"
    by (simp add: inject_route_def inject_func_def inject_params_Cons)
  have s: "route_status_code inject_route = 200"
      "fst ` set (route_params inject_route) = {''request'', ''response''}"
    by (simp_all add: inject_route_def)
  from non_mapping_body_gives_no_kwargs [OF h1 h2 h3 h4] h1 h2 h3 c s
  show ?thesis
    by simp
qed

section \<open>Envelope construction\<close>

lemma str_int_202: "str_int 202 = ''202''"
  by (simp add: str_int_def str_nat.simps digit_def)

text \<open>
  Claim C10. For a response with absent content whose status code S is not 200 and is below
  400, the envelope has the body null, the statusCode the decimal text of S, the flag
  isBase64Encoded false, and the headers of the response, with at most "x-request-id"
  added from the logging scope: no "content-length" and no "content-type" is added.
\<close>

theorem absent_content_below_400_unchanged:
  assumes "response_content response = Data JNull"
    and "response_status_code response \<noteq> 200"
    and "response_status_code response < 400"
  shows "fst (prepare_response E response log0)
           = \<lparr>body = None,
              statusCode = str_int (response_status_code response),
              headers = (case log0 ''request_id'' of
                           None \<Rightarrow> response_headers response
                         | Some request_id \<Rightarrow>
                             (response_headers response)(''x-request-id'' \<mapsto> request_id)),
              isBase64Encoded = False\<rparr>
       \<and> headers (fst (prepare_response E response log0)) ''content-length''
           = response_headers response ''content-length''
       \<and> headers (fst (prepare_response E response log0)) ''content-type''
           = response_headers response ''content-type''"
  using assms
  by (simp add: prepare_response_def Let_def split: option.split)

text \<open>The theorem at a response with status 202, no content and one header.\<close>

theorem absent_content_below_400_unchanged_witness:
  "response_content accepted_response = Data JNull
   \<and> response_status_code accepted_response \<noteq> 200
   \<and> response_status_code accepted_response < 400
   \<and> fst (prepare_response example_env accepted_response Map.empty)
       = \<lparr>body = None, statusCode = ''202'', headers = [''test'' \<mapsto> JStr ''test''],
          isBase64Encoded = False\<rparr>"
proof -
  have h: "response_content accepted_response = Data JNull"
    "response_status_code accepted_response \<noteq> 200"
    "response_status_code accepted_response < 400"
    by (simp_all add: accepted_response_def)
  from absent_content_below_400_unchanged [OF h, of example_env Map.empty] h
  show ?thesis
    by (simp add: accepted_response_def str_int_202)
qed

section \<open>Outcomes of the try block\<close>

lemma try_body_prepare_raises:
  assumes "prepare_request E routes path meth event ctx = Inl e"
  shows "try_body E routes meth path event ctx log0
           = (Inl e, log0(''method'' \<mapsto> meth, ''path'' \<mapsto> path))"
  using assms by (simp add: try_body_def)

lemma try_body_coroutine_raises:
  assumes "prepare_request E routes path meth event ctx = Inr (request, response, coro)"
    and "request_id_of request event = Inr rid"
    and "run_async_wait_for coro = Inl e"
  shows "fst (try_body E routes meth path event ctx log0) = Inl e"
  using assms by (simp add: try_body_def call_route_function_def Let_def)

text \<open>The \<open>try\<close> block writes neither the level nor the error detail of the logging scope.\<close>

lemma prepare_response_log:
  "snd (prepare_response E response log0) = log0(''status_code'' \<mapsto> JInt
      (if response_content response = Data JNull \<and> response_status_code response = 200
       then 204 else response_status_code response))"
  by (simp add: prepare_response_def Let_def split_beta)

lemma call_route_function_log:
  "k \<noteq> ''status_code'' \<Longrightarrow> snd (call_route_function E coro response log0) k = log0 k"
  by (simp add: call_route_function_def Let_def split_beta prepare_response_log
      split: sum.split)

lemma try_body_log:
  assumes "k \<noteq> ''status_code''" "k \<noteq> ''method''" "k \<noteq> ''path''"
    "k \<noteq> ''request_id''" "k \<noteq> ''user_agent''"
  shows "snd (try_body E routes meth path event ctx log0) k = log0 k"
  using assms
  by (simp add: try_body_def Let_def call_route_function_log
      split: sum.split option.split prod.split)

section \<open>Faults the dispatcher does not catch\<close>

text \<open>
  Claim C2. When the event gives a route, a fault that is neither an \<open>HTTPException\<close> nor
  a \<open>ValidationError\<close> leaves \<open>__call__\<close> as it is, and no envelope is returned: whether
  it is raised while the request is prepared and the route function called, or by the
  coroutine of the route function when it is run (the \<open>TimeoutError\<close> of \<open>wait_for\<close>
  included).
\<close>

theorem uncaught_faults_propagate:
  assumes "get_route_from_event event = Inr (meth, path)"
    and "\<not> is_HTTPException e"
    and "\<not> is_ValidationError e"
  shows "(prepare_request E routes path meth event ctx = Inl e
            \<longrightarrow> fst (Handler_call E routes event ctx) = Inl e)
       \<and> (\<forall>request response coro rid.
             prepare_request E routes path meth event ctx = Inr (request, response, coro)
             \<and> request_id_of request event = Inr rid
             \<and> run_async_wait_for coro = Inl e
            \<longrightarrow> fst (Handler_call E routes event ctx) = Inl e)"
proof -
  have caught: "fst (Handler_call E routes event ctx) = Inl e"
    if "fst (try_body E routes meth path event ctx (logger E (aws_request_id ctx))) = Inl e"
  proof -
    obtain r l where rl: "try_body E routes meth path event ctx (logger E (aws_request_id ctx)) = (r, l)"
      by (cases "try_body E routes meth path event ctx (logger E (aws_request_id ctx))")
    with that have "r = Inl e" by simp
    with rl assms show ?thesis
      by (cases e) (simp_all add: Handler_call_def)
  qed
  show ?thesis
  proof (intro conjI allI impI)
    assume "prepare_request E routes path meth event ctx = Inl e"
    then show "fst (Handler_call E routes event ctx) = Inl e"
      by (intro caught) (simp add: try_body_prepare_raises)
  next
    fix request response coro rid
    assume "prepare_request E routes path meth event ctx = Inr (request, response, coro)
             \<and> request_id_of request event = Inr rid
             \<and> run_async_wait_for coro = Inl e"
    then show "fst (Handler_call E routes event ctx) = Inl e"
      by (intro caught) (simp add: try_body_coroutine_raises)
  qed
qed

lemma prepare_request_raising_routes:
  "raising_routes p = Some [''GET'' \<mapsto> route_of func] \<Longrightarrow>
   prepare_request example_env raising_routes (JStr p) (JStr ''GET'') (event_of ''GET'' p JNull)
     example_context
   = (case call func Map.empty of
        Inl e \<Rightarrow> Inl e
      | Inr coro \<Rightarrow>
          Inr (example_Request (event_of ''GET'' p JNull) example_context,
               JSONResponse JNull 200, coro))"
proof -
  assume r: "raising_routes p = Some [''GET'' \<mapsto> route_of func]"
  have j: "request_json (example_Request (event_of ''GET'' p JNull) example_context) = Inr JNull"
    by (simp add: example_Request_def event_of_def)
  have q: "Request example_env = example_Request"
    by (simp add: example_env_def)
  show ?thesis
    by (simp add: prepare_request_def r q j route_of_def)
qed

lemma request_id_of_event_of:
  "request_id_of (example_Request (event_of m p b) c) (event_of m p b) = Inr (JStr ''r2'')"
  by (simp add: request_id_of_def example_Request_def event_of_def)

text \<open>The theorem at a route function that raises a \<open>ValueError\<close> and at one that is not
  done in time.\<close>

theorem uncaught_faults_propagate_witness:
  "get_route_from_event (event_of ''GET'' ''/raise_500'' JNull)
     = Inr (JStr ''GET'', JStr ''/raise_500'')
   \<and> \<not> is_HTTPException (ValueError ''Invalid value.'')
   \<and> \<not> is_ValidationError (ValueError ''Invalid value.'')
   \<and> prepare_request example_env raising_routes (JStr ''/raise_500'') (JStr ''GET'')
         (event_of ''GET'' ''/raise_500'' JNull) example_context
       = Inr (example_Request (event_of ''GET'' ''/raise_500'' JNull) example_context,
              JSONResponse JNull 200, Raises (ValueError ''Invalid value.''))
   \<and> run_async_wait_for (Raises (ValueError ''Invalid value.'')) = Inl (ValueError ''Invalid value.'')
   \<and> fst (Handler_call example_env raising_routes (event_of ''GET'' ''/raise_500'' JNull)
            example_context) = Inl (ValueError ''Invalid value.'')
   \<and> prepare_request example_env raising_routes (JStr ''/slow'') (JStr ''GET'')
         (event_of ''GET'' ''/slow'' JNull) example_context
       = Inr (example_Request (event_of ''GET'' ''/slow'' JNull) example_context,
              JSONResponse JNull 200, Exceeds_timeout)
   \<and> run_async_wait_for Exceeds_timeout = Inl TimeoutError
   \<and> fst (Handler_call example_env raising_routes (event_of ''GET'' ''/slow'' JNull)
            example_context) = Inl TimeoutError"
proof -
  have e1: "get_route_from_event (event_of ''GET'' ''/raise_500'' JNull)
              = Inr (JStr ''GET'', JStr ''/raise_500'')"
    by (rule get_route_event_of)
  have e2: "get_route_from_event (event_of ''GET'' ''/slow'' JNull)
              = Inr (JStr ''GET'', JStr ''/slow'')"
    by (rule get_route_event_of)
  have p1: "prepare_request example_env raising_routes (JStr ''/raise_500'') (JStr ''GET'')
         (event_of ''GET'' ''/raise_500'' JNull) example_context
       = Inr (example_Request (event_of ''GET'' ''/raise_500'' JNull) example_context,
              JSONResponse JNull 200, Raises (ValueError ''Invalid value.''))"
    by (subst prepare_request_raising_routes [where func = "raises (ValueError ''Invalid value.'')"])
      (simp_all add: raising_routes_def raises_def)
  have p2: "prepare_request example_env raising_routes (JStr ''/slow'') (JStr ''GET'')
         (event_of ''GET'' ''/slow'' JNull) example_context
       = Inr (example_Request (event_of ''GET'' ''/slow'' JNull) example_context,
              JSONResponse JNull 200, Exceeds_timeout)"
    by (subst prepare_request_raising_routes [where func = never_done])
      (simp_all add: raising_routes_def never_done_def)
  have n1: "\<not> is_HTTPException (ValueError ''Invalid value.'')"
    "\<not> is_ValidationError (ValueError ''Invalid value.'')"
    "\<not> is_HTTPException TimeoutError" "\<not> is_ValidationError TimeoutError"
    by simp_all
  from uncaught_faults_propagate [OF e1 n1(1,2), where E = example_env
      and routes = raising_routes and ctx = example_context]
    uncaught_faults_propagate [OF e2 n1(3,4), where E = example_env
      and routes = raising_routes and ctx = example_context]
    e1 p1 p2 request_id_of_event_of
  show ?thesis
    by simp
qed

section \<open>HTTP failures\<close>

lemma str_int_400: "str_int 400 = ''400''"
  by (simp add: str_int_def str_nat.simps digit_def)

lemma get_status_message_400: "get_status_message ph 400 = ''Bad Request''"
  by (simp add: get_status_message_def)

lemma try_body_raising_routes:
  assumes "raising_routes p = Some [''GET'' \<mapsto> route_of (raises e)]"
  shows "fst (try_body example_env raising_routes (JStr ''GET'') (JStr p)
                (event_of ''GET'' p JNull) example_context log0) = Inl e"
proof (rule try_body_coroutine_raises)
  show "prepare_request example_env raising_routes (JStr p) (JStr ''GET'')
          (event_of ''GET'' p JNull) example_context
        = Inr (example_Request (event_of ''GET'' p JNull) example_context,
               JSONResponse JNull 200, Raises e)"
    by (simp add: prepare_request_raising_routes [OF assms] raises_def)
  show "request_id_of (example_Request (event_of ''GET'' p JNull) example_context)
          (event_of ''GET'' p JNull) = Inr (JStr ''r2'')"
    by (rule request_id_of_event_of)
  show "run_async_wait_for (Raises e) = Inl e"
    by simp
qed

text \<open>
  Claim C5, as the code has it. When the \<open>try\<close> block of \<open>__call__\<close> raises an
  \<open>HTTPException\<close> with the status code C (the route function raised it, or the routing
  did), the call returns an envelope with the status C; its body is \<open>{"detail": d}\<close> when a
  public detail d that is not empty was given, and \<open>{"detail": <reason phrase for C>}\<close> when
  the public detail is absent or empty.
\<close>

theorem http_failure_envelope:
  assumes "get_route_from_event event = Inr (meth, path)"
    and "fst (try_body E routes meth path event ctx (logger E (aws_request_id ctx)))
           = Inl (HTTPException exc)"
  shows "\<exists>env0. fst (Handler_call E routes event ctx) = Inr env0
           \<and> statusCode env0 = str_int (exc_status_code exc)
           \<and> body env0 = Some (dumps (JDict [(''detail'', JStr
                (case exc_detail exc of
                   None \<Rightarrow> get_status_message (phrase E) (exc_status_code exc)
                 | Some d \<Rightarrow> if d = [] then get_status_message (phrase E) (exc_status_code exc)
                             else d))]))"
proof -
  obtain log1 where "try_body E routes meth path event ctx (logger E (aws_request_id ctx))
           = (Inl (HTTPException exc), log1)"
    using assms(2)
    by (cases "try_body E routes meth path event ctx (logger E (aws_request_id ctx))") simp
  from Handler_call_HTTPException [OF assms(1) this]
  show ?thesis
    by (cases "exc_detail exc") (auto simp add: detail_def)
qed

text \<open>The theorem at a route function that raises \<open>HTTPException(503)\<close> and at one that
  raises \<open>HTTPException(400, "Custom Error Message")\<close>.\<close>

theorem http_failure_envelope_witness:
  "get_route_from_event (event_of ''GET'' ''/raise_503'' JNull)
     = Inr (JStr ''GET'', JStr ''/raise_503'')
   \<and> fst (try_body example_env raising_routes (JStr ''GET'') (JStr ''/raise_503'')
            (event_of ''GET'' ''/raise_503'' JNull) example_context
            (logger example_env (aws_request_id example_context)))
       = Inl (HTTPException (HTTPException_init 503 None None None))
   \<and> (\<exists>env0. fst (Handler_call example_env raising_routes
                      (event_of ''GET'' ''/raise_503'' JNull) example_context) = Inr env0
          \<and> statusCode env0 = ''503''
          \<and> body env0 = Some ''{\"detail\":\"Service Unavailable\"}'')
   \<and> (\<exists>env0. fst (Handler_call example_env raising_routes
                      (event_of ''GET'' ''/raise_400_with_message'' JNull) example_context)
              = Inr env0
          \<and> statusCode env0 = ''400''
          \<and> body env0 = Some ''{\"detail\":\"Custom Error Message\"}'')"
proof -
  have e1: "get_route_from_event (event_of ''GET'' ''/raise_503'' JNull)
              = Inr (JStr ''GET'', JStr ''/raise_503'')"
    by (rule get_route_event_of)
  have e2: "get_route_from_event (event_of ''GET'' ''/raise_400_with_message'' JNull)
              = Inr (JStr ''GET'', JStr ''/raise_400_with_message'')"
    by (rule get_route_event_of)
  have t1: "fst (try_body example_env raising_routes (JStr ''GET'') (JStr ''/raise_503'')
            (event_of ''GET'' ''/raise_503'' JNull) example_context
            (logger example_env (aws_request_id example_context)))
       = Inl (HTTPException (HTTPException_init 503 None None None))"
    by (rule try_body_raising_routes) (simp add: raising_routes_def)
  have t2: "fst (try_body example_env raising_routes (JStr ''GET'') (JStr ''/raise_400_with_message'')
            (event_of ''GET'' ''/raise_400_with_message'' JNull) example_context
            (logger example_env (aws_request_id example_context)))
       = Inl (HTTPException (HTTPException_init 400 (Some ''Custom Error Message'') None None))"
    by (rule try_body_raising_routes) (simp add: raising_routes_def)
  have s: "str_int 503 = ''503''"
    by (simp add: str_int_def str_nat.simps digit_def)
  from http_failure_envelope [OF e1 t1] http_failure_envelope [OF e2 t2] e1 t1
  show ?thesis
    by (simp add: HTTPException_init_def get_status_message_def s str_int_400
        quote_def escape_char_def)
qed

text \<open>The claim as it was stated gives the body \<open>{"detail": ""}\<close> to an exception raised
  with the explicit public detail \<open>""\<close>. The route function of "/raise_400_empty" raises
  \<open>HTTPException(400, "")\<close>, and the body is \<open>{"detail":"Bad Request"}\<close>.\<close>

theorem empty_detail_counterexample:
  "call (raises (HTTPException (HTTPException_init 400 (Some []) None None))) Map.empty
     = Inr (Raises (HTTPException
              \<lparr>exc_status_code = 400, exc_detail = Some [], exc_headers = None,
               exc_error_detail = None\<rparr>))
   \<and> raising_routes ''/raise_400_empty''
       = Some [''GET'' \<mapsto> route_of (raises (HTTPException (HTTPException_init 400 (Some []) None None)))]
   \<and> map_sum id body (fst (Handler_call example_env raising_routes
                              (event_of ''GET'' ''/raise_400_empty'' JNull) example_context))
       = Inr (Some ''{\"detail\":\"Bad Request\"}'')
   \<and> dumps (JDict [(''detail'', JStr [])]) = ''{\"detail\":\"\"}''
   \<and> ''{\"detail\":\"Bad Request\"}'' \<noteq> ''{\"detail\":\"\"}''"
proof -
  have e: "get_route_from_event (event_of ''GET'' ''/raise_400_empty'' JNull)
              = Inr (JStr ''GET'', JStr ''/raise_400_empty'')"
    by (rule get_route_event_of)
  have t: "fst (try_body example_env raising_routes (JStr ''GET'') (JStr ''/raise_400_empty'')
            (event_of ''GET'' ''/raise_400_empty'' JNull) example_context
            (logger example_env (aws_request_id example_context)))
       = Inl (HTTPException (HTTPException_init 400 (Some []) None None))"
    by (rule try_body_raising_routes) (simp add: raising_routes_def)
  obtain log1 where "try_body example_env raising_routes (JStr ''GET'') (JStr ''/raise_400_empty'')
            (event_of ''GET'' ''/raise_400_empty'' JNull) example_context
            (logger example_env (aws_request_id example_context))
       = (Inl (HTTPException (HTTPException_init 400 (Some []) None None)), log1)"
    using t
    by (cases "try_body example_env raising_routes (JStr ''GET'') (JStr ''/raise_400_empty'')
            (event_of ''GET'' ''/raise_400_empty'' JNull) example_context
            (logger example_env (aws_request_id example_context))") simp
  from Handler_call_HTTPException [OF e this]
  have "map_sum id body (fst (Handler_call example_env raising_routes
                              (event_of ''GET'' ''/raise_400_empty'' JNull) example_context))
       = Inr (Some ''{\"detail\":\"Bad Request\"}'')"
    by (auto simp add: HTTPException_init_def detail_def get_status_message_400
        quote_def escape_char_def)
  moreover have "call (raises (HTTPException (HTTPException_init 400 (Some []) None None)))
                   Map.empty
     = Inr (Raises (HTTPException
              \<lparr>exc_status_code = 400, exc_detail = Some [], exc_headers = None,
               exc_error_detail = None\<rparr>))"
    by (simp add: raises_def HTTPException_init_def)
  moreover have "raising_routes ''/raise_400_empty''
       = Some [''GET'' \<mapsto> route_of (raises (HTTPException (HTTPException_init 400 (Some []) None None)))]"
    by (simp add: raising_routes_def)
  moreover have "dumps (JDict [(''detail'', JStr [])]) = ''{\"detail\":\"\"}''"
    by (simp add: quote_def escape_char_def)
  ultimately show ?thesis
    by simp
qed

section \<open>The logging scope after an HTTP failure\<close>

text \<open>What the \<open>try\<close> block gives at a route of the example table whose function raises:
  the exception, and the scope with the method, the path and the request id.\<close>

lemma try_body_raising_routes_log:
  assumes "raising_routes p = Some [''GET'' \<mapsto> route_of (raises e)]"
  shows "try_body example_env raising_routes (JStr ''GET'') (JStr p)
           (event_of ''GET'' p JNull) example_context log0
         = (Inl e, log0(''method'' \<mapsto> JStr ''GET'', ''path'' \<mapsto> JStr p,
                         ''request_id'' \<mapsto> JStr ''r2''))"
proof -
  have p: "prepare_request example_env raising_routes (JStr p) (JStr ''GET'')
          (event_of ''GET'' p JNull) example_context
        = Inr (example_Request (event_of ''GET'' p JNull) example_context,
               JSONResponse JNull 200, Raises e)"
    by (simp add: prepare_request_raising_routes [OF assms] raises_def)
  have u: "request_headers (example_Request (event_of ''GET'' p JNull) example_context)
             ''user-agent'' = None"
    by (simp add: example_Request_def event_of_def)
  show ?thesis
    by (simp add: try_body_def p request_id_of_event_of u call_route_function_def)
qed

text \<open>
  Claim C6, as the code has it. When the \<open>try\<close> block of \<open>__call__\<close> raises an
  \<open>HTTPException\<close> with the status code C, the level of the logging scope is "error" if
  C \<ge> 500, "warning" if 400 \<le> C < 500, and otherwise what it was when the exception
  reached the \<open>except\<close> clause; the field "error_detail" is the private detail when one that
  is not empty was given, else the public detail when one that is not empty was given, and
  is left as it was (unset, in a scope that had none) only when each of the two details is
  absent or empty.
\<close>

theorem http_failure_log:
  assumes "get_route_from_event event = Inr (meth, path)"
    and "try_body E routes meth path event ctx (logger E (aws_request_id ctx))
           = (Inl (HTTPException exc), log1)"
  shows "\<exists>log5. snd (Handler_call E routes event ctx) = Some log5
           \<and> log5 ''level''
               = (if exc_status_code exc \<ge> 500 then Some (JStr ''error'')
                  else if exc_status_code exc \<ge> 400 then Some (JStr ''warning'')
                  else log1 ''level'')
           \<and> log5 ''error_detail''
               = (case exc_error_detail exc of
                    Some private \<Rightarrow>
                      if private \<noteq> [] then Some (JStr private)
                      else (case exc_detail exc of
                              Some public \<Rightarrow>
                                if public \<noteq> [] then Some (JStr public)
                                else log1 ''error_detail''
                            | None \<Rightarrow> log1 ''error_detail'')
                  | None \<Rightarrow>
                      (case exc_detail exc of
                         Some public \<Rightarrow>
                           if public \<noteq> [] then Some (JStr public)
                           else log1 ''error_detail''
                       | None \<Rightarrow> log1 ''error_detail''))"
  using assms
  by (simp add: Handler_call_def Let_def split_beta prepare_response_log error_detail_def
      split: option.split)

text \<open>The theorem at route functions that raise \<open>HTTPException(503)\<close> (level "error", no
  error detail), \<open>HTTPException(400, "Custom Error Message", error_detail="detail")\<close> (the
  private detail), \<open>HTTPException(400, "pub", error_detail="")\<close> (the public detail, the
  private one being empty), \<open>HTTPException(400, "", error_detail="")\<close> (no error detail,
  both being empty) and \<open>HTTPException(302)\<close> (the level as it was: none).\<close>

theorem http_failure_log_witness:
  "get_route_from_event (event_of ''GET'' ''/raise_503'' JNull)
     = Inr (JStr ''GET'', JStr ''/raise_503'')
   \<and> try_body example_env raising_routes (JStr ''GET'') (JStr ''/raise_503'')
         (event_of ''GET'' ''/raise_503'' JNull) example_context
         (logger example_env (aws_request_id example_context))
       = (Inl (HTTPException (HTTPException_init 503 None None None)),
          [''aws_request_id'' \<mapsto> JStr ''a1'', ''method'' \<mapsto> JStr ''GET'',
           ''path'' \<mapsto> JStr ''/raise_503'', ''request_id'' \<mapsto> JStr ''r2''])
   \<and> (\<exists>log5. snd (Handler_call example_env raising_routes
                      (event_of ''GET'' ''/raise_503'' JNull) example_context) = Some log5
          \<and> log5 ''level'' = Some (JStr ''error'')
          \<and> log5 ''error_detail'' = None)
   \<and> (\<exists>log5. snd (Handler_call example_env raising_routes
                      (event_of ''GET'' ''/raise_400_with_detail'' JNull) example_context)
              = Some log5
          \<and> log5 ''level'' = Some (JStr ''warning'')
          \<and> log5 ''error_detail'' = Some (JStr ''detail''))
   \<and> (\<exists>log5. snd (Handler_call example_env raising_routes
                      (event_of ''GET'' ''/raise_400_empty_private'' JNull) example_context)
              = Some log5
          \<and> log5 ''level'' = Some (JStr ''warning'')
          \<and> log5 ''error_detail'' = Some (JStr ''pub''))
   \<and> (\<exists>log5. snd (Handler_call example_env raising_routes
                      (event_of ''GET'' ''/raise_400_both_empty'' JNull) example_context)
              = Some log5
          \<and> log5 ''level'' = Some (JStr ''warning'')
          \<and> log5 ''error_detail'' = None)
   \<and> (\<exists>log5. snd (Handler_call example_env raising_routes
                      (event_of ''GET'' ''/raise_302'' JNull) example_context) = Some log5
          \<and> log5 ''level'' = None
          \<and> log5 ''error_detail'' = None)"
proof -
  let ?log0 = "logger example_env (aws_request_id example_context)"
  have l: "?log0 = [''aws_request_id'' \<mapsto> JStr ''a1'']"
    by (simp add: example_env_def example_context_def)
  have e: "get_route_from_event (event_of ''GET'' p JNull) = Inr (JStr ''GET'', JStr p)" for p
    by (rule get_route_event_of)
  have t1: "try_body example_env raising_routes (JStr ''GET'') (JStr ''/raise_503'')
              (event_of ''GET'' ''/raise_503'' JNull) example_context ?log0
            = (Inl (HTTPException (HTTPException_init 503 None None None)),
               ?log0(''method'' \<mapsto> JStr ''GET'', ''path'' \<mapsto> JStr ''/raise_503'',
                     ''request_id'' \<mapsto> JStr ''r2''))"
    by (rule try_body_raising_routes_log) (simp add: raising_routes_def)
  have t2: "try_body example_env raising_routes (JStr ''GET'') (JStr ''/raise_400_with_detail'')
              (event_of ''GET'' ''/raise_400_with_detail'' JNull) example_context ?log0
            = (Inl (HTTPException (HTTPException_init 400 (Some ''Custom Error Message'') None
                                     (Some ''detail''))),
               ?log0(''method'' \<mapsto> JStr ''GET'', ''path'' \<mapsto> JStr ''/raise_400_with_detail'',
                     ''request_id'' \<mapsto> JStr ''r2''))"
    by (rule try_body_raising_routes_log) (simp add: raising_routes_def)
  have t3: "try_body example_env raising_routes (JStr ''GET'') (JStr ''/raise_400_empty_private'')
              (event_of ''GET'' ''/raise_400_empty_private'' JNull) example_context ?log0
            = (Inl (HTTPException (HTTPException_init 400 (Some ''pub'') None (Some []))),
               ?log0(''method'' \<mapsto> JStr ''GET'', ''path'' \<mapsto> JStr ''/raise_400_empty_private'',
                     ''request_id'' \<mapsto> JStr ''r2''))"
    by (rule try_body_raising_routes_log) (simp add: raising_routes_def)
  have t4: "try_body example_env raising_routes (JStr ''GET'') (JStr ''/raise_400_both_empty'')
              (event_of ''GET'' ''/raise_400_both_empty'' JNull) example_context ?log0
            = (Inl (HTTPException (HTTPException_init 400 (Some []) None (Some []))),
               ?log0(''method'' \<mapsto> JStr ''GET'', ''path'' \<mapsto> JStr ''/raise_400_both_empty'',
                     ''request_id'' \<mapsto> JStr ''r2''))"
    by (rule try_body_raising_routes_log) (simp add: raising_routes_def)
  have t5: "try_body example_env raising_routes (JStr ''GET'') (JStr ''/raise_302'')
              (event_of ''GET'' ''/raise_302'' JNull) example_context ?log0
            = (Inl (HTTPException (HTTPException_init 302 None None None)),
               ?log0(''method'' \<mapsto> JStr ''GET'', ''path'' \<mapsto> JStr ''/raise_302'',
                     ''request_id'' \<mapsto> JStr ''r2''))"
    by (rule try_body_raising_routes_log) (simp add: raising_routes_def)
  have w1: "\<exists>log5. snd (Handler_call example_env raising_routes
                      (event_of ''GET'' ''/raise_503'' JNull) example_context) = Some log5
          \<and> log5 ''level'' = Some (JStr ''error'')
          \<and> log5 ''error_detail'' = None"
    using http_failure_log [OF e t1] by (simp add: HTTPException_init_def l)
  have w2: "\<exists>log5. snd (Handler_call example_env raising_routes
                      (event_of ''GET'' ''/raise_400_with_detail'' JNull) example_context)
              = Some log5
          \<and> log5 ''level'' = Some (JStr ''warning'')
          \<and> log5 ''error_detail'' = Some (JStr ''detail'')"
    using http_failure_log [OF e t2] by (simp add: HTTPException_init_def l)
  have w3: "\<exists>log5. snd (Handler_call example_env raising_routes
                      (event_of ''GET'' ''/raise_400_empty_private'' JNull) example_context)
              = Some log5
          \<and> log5 ''level'' = Some (JStr ''warning'')
          \<and> log5 ''error_detail'' = Some (JStr ''pub'')"
    using http_failure_log [OF e t3] by (simp add: HTTPException_init_def l)
  have w4: "\<exists>log5. snd (Handler_call example_env raising_routes
                      (event_of ''GET'' ''/raise_400_both_empty'' JNull) example_context)
              = Some log5
          \<and> log5 ''level'' = Some (JStr ''warning'')
          \<and> log5 ''error_detail'' = None"
    using http_failure_log [OF e t4] by (simp add: HTTPException_init_def l)
  have w5: "\<exists>log5. snd (Handler_call example_env raising_routes
                      (event_of ''GET'' ''/raise_302'' JNull) example_context) = Some log5
          \<and> log5 ''level'' = None
          \<and> log5 ''error_detail'' = None"
    using http_failure_log [OF e t5] by (simp add: HTTPException_init_def l)
  from e [of "''/raise_503''"] t1 w1 w2 w3 w4 w5 show ?thesis
    unfolding l by simp
qed

text \<open>The claim as it was stated leaves "error_detail" unset when the exception carries a
  public detail only. The route function of "/raise_400_with_message" raises
  \<open>HTTPException(400, "Custom Error Message")\<close>, with no private detail, and the scope
  records the public detail as "error_detail".\<close>

theorem public_detail_logged_counterexample:
  "raising_routes ''/raise_400_with_message''
     = Some [''GET'' \<mapsto> route_of (raises (HTTPException
               \<lparr>exc_status_code = 400, exc_detail = Some ''Custom Error Message'',
                exc_headers = None, exc_error_detail = None\<rparr>))]
   \<and> logger example_env (aws_request_id example_context) ''error_detail'' = None
   \<and> map_option (\<lambda>log5. log5 ''error_detail'')
        (snd (Handler_call example_env raising_routes
                (event_of ''GET'' ''/raise_400_with_message'' JNull) example_context))
       = Some (Some (JStr ''Custom Error Message''))"
proof -
  let ?ev = "event_of ''GET'' ''/raise_400_with_message'' JNull"
  let ?exc = "HTTPException_init 400 (Some ''Custom Error Message'') None None"
  have e: "get_route_from_event ?ev = Inr (JStr ''GET'', JStr ''/raise_400_with_message'')"
    by (rule get_route_event_of)
  have t: "fst (try_body example_env raising_routes (JStr ''GET'')
                  (JStr ''/raise_400_with_message'') ?ev example_context
                  (logger example_env (aws_request_id example_context)))
       = Inl (HTTPException ?exc)"
    by (rule try_body_raising_routes) (simp add: raising_routes_def)
  obtain log1 where "try_body example_env raising_routes (JStr ''GET'')
                  (JStr ''/raise_400_with_message'') ?ev example_context
                  (logger example_env (aws_request_id example_context))
       = (Inl (HTTPException ?exc), log1)"
    using t
    by (cases "try_body example_env raising_routes (JStr ''GET'')
                  (JStr ''/raise_400_with_message'') ?ev example_context
                  (logger example_env (aws_request_id example_context))") simp
  with e have "map_option (\<lambda>log5. log5 ''error_detail'')
        (snd (Handler_call example_env raising_routes ?ev example_context))
       = Some (Some (JStr ''Custom Error Message''))"
    by (simp add: Handler_call_def Let_def split_beta prepare_response_log error_detail_def
        HTTPException_init_def)
  moreover have "raising_routes ''/raise_400_with_message''
     = Some [''GET'' \<mapsto> route_of (raises (HTTPException
               \<lparr>exc_status_code = 400, exc_detail = Some ''Custom Error Message'',
                exc_headers = None, exc_error_detail = None\<rparr>))]"
    by (simp add: raising_routes_def HTTPException_init_def)
  moreover have "logger example_env (aws_request_id example_context) ''error_detail'' = None"
    by (simp add: example_env_def)
  ultimately show ?thesis
    by simp
qed

section \<open>The no-content convention\<close>

lemma Handler_call_returns:
  assumes "get_route_from_event event = Inr (meth, path)"
    and "fst (try_body E routes meth path event ctx (logger E (aws_request_id ctx))) = Inr env0"
  shows "fst (Handler_call E routes event ctx) = Inr env0"
proof -
  obtain l where "try_body E routes meth path event ctx (logger E (aws_request_id ctx))
                    = (Inr env0, l)"
    using assms(2)
    by (cases "try_body E routes meth path event ctx (logger E (aws_request_id ctx))") simp
  with assms(1) show ?thesis
    by (simp add: Handler_call_def)
qed

lemma try_body_runs:
  assumes "prepare_request E routes path meth event ctx = Inr (request, response, coro)"
    and "request_id_of request event = Inr rid"
  shows "\<exists>log4. try_body E routes meth path event ctx log0
                  = call_route_function E coro response log4"
  using assms by (auto simp add: try_body_def Let_def)

lemma str_int_204: "str_int 204 = ''204''"
  by (simp add: str_int_def str_nat.simps digit_def)

text \<open>
  Claim C4, as the code has it. A response with absent content and the status code 200 has
  its status rewritten to 204 whatever the origin of the 200: the envelope has statusCode
  "204" and the logging scope records 204. Registering a route with the explicit status
  code 200 stores the same route as registering it with none, and a 200 that the route
  function set on the injected \<open>Response\<close> is rewritten as well.
\<close>

theorem absent_content_200_becomes_204:
  assumes "response_content response = Data JNull"
    and "response_status_code response = 200"
  shows "fst (prepare_response E response log0)
           = \<lparr>body = None,
              statusCode = ''204'',
              headers = (case log0 ''request_id'' of
                           None \<Rightarrow> response_headers response
                         | Some request_id \<Rightarrow>
                             (response_headers response)(''x-request-id'' \<mapsto> request_id)),
              isBase64Encoded = False\<rparr>
       \<and> snd (prepare_response E response log0) ''status_code'' = Some (JInt 204)
       \<and> api_route E routes path meth (Some 200) func = api_route E routes path meth None func
       \<and> (\<forall>mutate seeded. mutate seeded = response \<longrightarrow>
             map_sum id statusCode
               (fst (call_route_function E (Completes (Returns JNull) mutate) seeded log0))
             = Inr ''204'')"
proof -
  have p: "fst (prepare_response E response log0)
           = \<lparr>body = None,
              statusCode = ''204'',
              headers = (case log0 ''request_id'' of
                           None \<Rightarrow> response_headers response
                         | Some request_id \<Rightarrow>
                             (response_headers response)(''x-request-id'' \<mapsto> request_id)),
              isBase64Encoded = False\<rparr>"
    using assms by (simp add: prepare_response_def Let_def str_int_204 split: option.split)
  have u: "response\<lparr>response_content := Data JNull\<rparr> = response"
    using assms(1) by simp
  have "map_sum id statusCode
          (fst (call_route_function E (Completes (Returns JNull) mutate) seeded log0))
        = Inr ''204''" if "mutate seeded = response" for mutate seeded
    using that p by (simp add: call_route_function_def Let_def split_beta u)
  moreover have "snd (prepare_response E response log0) ''status_code'' = Some (JInt 204)"
    using assms by (simp add: prepare_response_log)
  moreover have "api_route E routes path meth (Some 200) func
                   = api_route E routes path meth None func"
    by (simp add: api_route_def Let_def split: option.split)
  ultimately show ?thesis
    using p by simp
qed

text \<open>The theorem at the response seeded for a route with the status code 200.\<close>

theorem absent_content_200_becomes_204_witness:
  "response_content (JSONResponse JNull 200) = Data JNull
   \<and> response_status_code (JSONResponse JNull 200) = 200
   \<and> fst (prepare_response example_env (JSONResponse JNull 200) Map.empty)
       = \<lparr>body = None, statusCode = ''204'', headers = Map.empty, isBase64Encoded = False\<rparr>
   \<and> map_sum id statusCode
        (fst (call_route_function example_env (Completes (Returns JNull) id)
                (JSONResponse JNull 200) Map.empty))
       = Inr ''204''"
proof -
  have h: "response_content (JSONResponse JNull 200) = Data JNull"
    "response_status_code (JSONResponse JNull 200) = 200"
    by (simp_all add: JSONResponse_def)
  have r: "response_headers (JSONResponse JNull 200) = Map.empty"
    by (simp add: JSONResponse_def)
  from absent_content_200_becomes_204 [OF h, of example_env Map.empty] h r
  show ?thesis
    by simp
qed

text \<open>The claim as it was stated keeps an explicit 200. The route of "/explicit" is
  registered with the explicit status code 200 and its function returns nothing; the
  route of "/set" is registered with 201, and its function sets the status code of the
  injected response to 200 and returns nothing. Both calls give the statusCode "204".\<close>

theorem explicit_200_rewritten_counterexample:
  "Handler_get example_env Map.empty ''/explicit'' (Some 200) returns_nothing
     = Inr (explicit_200_routes, returns_nothing)
   \<and> map_sum id statusCode
        (fst (Handler_call example_env explicit_200_routes
                (event_of ''GET'' ''/explicit'' JNull) example_context))
       = Inr ''204''
   \<and> Handler_get example_env Map.empty ''/set'' (Some 201) sets_200
       = Inr (sets_200_routes, sets_200)
   \<and> map_sum id statusCode
        (fst (Handler_call example_env sets_200_routes
                (event_of ''GET'' ''/set'' JNull) example_context))
       = Inr ''204''"
proof -
  have q: "Request example_env = example_Request" "validate_arguments example_env = None"
    by (simp_all add: example_env_def)
  have j: "request_json (example_Request (event_of m p JNull) example_context) = Inr JNull"
    for m p
    by (simp add: example_Request_def event_of_def)
  have g1: "Handler_get example_env Map.empty ''/explicit'' (Some 200) returns_nothing
     = Inr (explicit_200_routes, returns_nothing)"
    by (simp add: Handler_get_def api_route_def Let_def q explicit_200_routes_def
        check_signature_def returns_nothing_def)
  have g2: "Handler_get example_env Map.empty ''/set'' (Some 201) sets_200
       = Inr (sets_200_routes, sets_200)"
    by (simp add: Handler_get_def api_route_def Let_def q sets_200_routes_def
        check_signature_def sets_200_def)
  have p1: "prepare_request example_env explicit_200_routes (JStr ''/explicit'') (JStr ''GET'')
              (event_of ''GET'' ''/explicit'' JNull) example_context
            = Inr (example_Request (event_of ''GET'' ''/explicit'' JNull) example_context,
                   JSONResponse JNull 200, Completes (Returns JNull) id)"
    by (simp add: prepare_request_def explicit_200_routes_def q j returns_nothing_def)
  have p2: "prepare_request example_env sets_200_routes (JStr ''/set'') (JStr ''GET'')
              (event_of ''GET'' ''/set'' JNull) example_context
            = Inr (example_Request (event_of ''GET'' ''/set'' JNull) example_context,
                   JSONResponse JNull 201,
                   Completes (Returns JNull) (\<lambda>response. response\<lparr>response_status_code := 200\<rparr>))"
    by (simp add: prepare_request_def sets_200_routes_def q j sets_200_def)
  have c1: "\<exists>env0. fst (call_route_function example_env (Completes (Returns JNull) id)
                          (JSONResponse JNull 200) log0) = Inr env0
                 \<and> statusCode env0 = ''204''" for log0
    by (simp add: call_route_function_def prepare_response_def JSONResponse_def Let_def
        str_int_204)
  have c2: "\<exists>env0. fst (call_route_function example_env
                          (Completes (Returns JNull)
                             (\<lambda>response. response\<lparr>response_status_code := 200\<rparr>))
                          (JSONResponse JNull 201) log0) = Inr env0
                 \<and> statusCode env0 = ''204''" for log0
    by (simp add: call_route_function_def prepare_response_def JSONResponse_def Let_def
        str_int_204)
  have t1: "map_sum id statusCode
        (fst (Handler_call example_env explicit_200_routes
                (event_of ''GET'' ''/explicit'' JNull) example_context))
       = Inr ''204''"
  proof -
    from try_body_runs [OF p1 request_id_of_event_of] c1
    obtain env0 where "fst (try_body example_env explicit_200_routes (JStr ''GET'')
                              (JStr ''/explicit'') (event_of ''GET'' ''/explicit'' JNull)
                              example_context
                              (logger example_env (aws_request_id example_context)))
                       = Inr env0" and "statusCode env0 = ''204''"
      by metis
    with Handler_call_returns [OF get_route_event_of this(1)] show ?thesis
      by simp
  qed
  have t2: "map_sum id statusCode
        (fst (Handler_call example_env sets_200_routes
                (event_of ''GET'' ''/set'' JNull) example_context))
       = Inr ''204''"
  proof -
    from try_body_runs [OF p2 request_id_of_event_of] c2
    obtain env0 where "fst (try_body example_env sets_200_routes (JStr ''GET'')
                              (JStr ''/set'') (event_of ''GET'' ''/set'' JNull)
                              example_context
                              (logger example_env (aws_request_id example_context)))
                       = Inr env0" and "statusCode env0 = ''204''"
      by metis
    with Handler_call_returns [OF get_route_event_of this(1)] show ?thesis
      by simp
  qed
  from g1 g2 t1 t2 show ?thesis
    by simp
qed

section \<open>Registration\<close>

text \<open>The names \<open>_check_signature\<close> collects are distinct, as the keys of a dict are.\<close>

lemma check_signature_distinct: "distinct (map fst (check_signature func))"
proof -
  have "distinct (map fst acc) \<Longrightarrow>
        distinct (map fst (fold (\<lambda>(name, annotation) params.
             if is_type annotation \<and> subclass_of_Request annotation
               then AList.update name Request_cls params
             else if is_type annotation \<and> subclass_of_Response annotation
               then AList.update name Response_cls params
             else params) ps acc))" for ps and acc :: "(string \<times> param_cls) list"
  proof (induction ps arbitrary: acc)
    case Nil
    then show ?case by simp
  next
    case (Cons p ps)
    then show ?case
      by (cases p) (simp add: distinct_update)
  qed
  from this [of "[]" "parameters func"] show ?thesis
    by (simp add: check_signature_def)
qed

lemma api_route_fresh:
  assumes "\<forall>path_routes. routes path = Some path_routes \<longrightarrow> path_routes meth = None"
  shows "\<exists>routes1 path_routes1 route.
           api_route E routes path meth status_code func
             = Inr (routes1,
                    case validate_arguments E of None \<Rightarrow> func | Some validate \<Rightarrow> validate func)
           \<and> routes1 path = Some path_routes1
           \<and> path_routes1 meth = Some route
           \<and> route_func route
               = (case validate_arguments E of None \<Rightarrow> func | Some validate \<Rightarrow> validate func)
           \<and> route_params route = check_signature func"
proof (cases "routes path")
  case None
  then show ?thesis
    by (simp add: api_route_def Let_def)
next
  case (Some path_routes)
  with assms have "path_routes meth = None" by simp
  with Some show ?thesis
    by (simp add: api_route_def Let_def)
qed

text \<open>
  Claim C8, as the code has it. Each of the seven registration operations, applied to a
  function on a fresh (path, method) pair, stores a route for the pair and returns the very
  callable it stored in that route: the function itself when no validation decorator is
  available, and otherwise what the decorator \<open>validate_arguments\<close> makes of the function.
\<close>

theorem registration_returns_registered_callable:
  fixes E :: env and func :: callable
  defines "func1 \<equiv> (case validate_arguments E of None \<Rightarrow> func | Some validate \<Rightarrow> validate func)"
  assumes "(meth, register) \<in> set [(''DELETE'', Handler_delete), (''GET'', Handler_get),
             (''HEAD'', Handler_head), (''OPTIONS'', Handler_options),
             (''PATCH'', Handler_patch), (''POST'', Handler_post), (''PUT'', Handler_put)]"
    and "\<forall>path_routes. routes path = Some path_routes \<longrightarrow> path_routes meth = None"
  shows "(\<exists>routes1 path_routes1 route.
            register E routes path status_code func = Inr (routes1, func1)
            \<and> routes1 path = Some path_routes1
            \<and> path_routes1 meth = Some route
            \<and> route_func route = func1)
       \<and> (validate_arguments E = None \<longrightarrow> func1 = func)"
proof -
  from assms(2) have "register E routes path status_code func
                        = api_route E routes path meth status_code func"
    by (auto simp add: Handler_delete_def Handler_get_def Handler_head_def Handler_options_def
        Handler_patch_def Handler_post_def Handler_put_def)
  with api_route_fresh [where routes = routes and path = path and meth = meth
      and E = E and status_code = status_code and func = func, OF assms(3)]
  show ?thesis
    unfolding func1_def by auto
qed

text \<open>The theorem at the registration of GET "/x" in an empty table, with no validation
  decorator: the function itself is returned.\<close>

theorem registration_returns_registered_callable_witness:
  "(''GET'', Handler_get) \<in> set [(''DELETE'', Handler_delete), (''GET'', Handler_get),
             (''HEAD'', Handler_head), (''OPTIONS'', Handler_options),
             (''PATCH'', Handler_patch), (''POST'', Handler_post), (''PUT'', Handler_put)]
   \<and> (\<forall>path_routes. (Map.empty :: routes) ''/x'' \<noteq> Some path_routes)
   \<and> validate_arguments example_env = None
   \<and> (\<exists>routes1. Handler_get example_env Map.empty ''/x'' None get_x = Inr (routes1, get_x))"
proof -
  have m: "(''GET'', Handler_get) \<in> set [(''DELETE'', Handler_delete), (''GET'', Handler_get),
             (''HEAD'', Handler_head), (''OPTIONS'', Handler_options),
             (''PATCH'', Handler_patch), (''POST'', Handler_post), (''PUT'', Handler_put)]"
    by simp
  have f: "\<forall>path_routes. (Map.empty :: routes) ''/x'' = Some path_routes
             \<longrightarrow> path_routes ''GET'' = None"
    by simp
  have v: "validate_arguments example_env = None"
    by (simp add: example_env_def)
  from registration_returns_registered_callable [where routes = Map.empty and path = "''/x''"
      and E = example_env and status_code = None and func = get_x, OF m f] v
  show ?thesis
    by auto
qed

text \<open>The claim as it was stated returns the function that was passed in. With a
  validation decorator, the registration of GET "/raise_422" returns the wrapper, which is
  not the function: called with a string as \<open>value\<close>, the wrapper raises a
  \<open>ValidationError\<close> and the function returns the string.\<close>

theorem validated_handler_counterexample:
  "map_sum id snd (Handler_get validating_env Map.empty ''/raise_422'' None value_func)
     = Inr (validating value_func)
   \<and> validating value_func \<noteq> value_func
   \<and> call (validating value_func) [''value'' \<mapsto> Body (JStr ''a'')]
       = Inl (ValidationError (JList [JStr ''type_error.integer'']))
   \<and> call value_func [''value'' \<mapsto> Body (JStr ''a'')]
       = Inr (Completes (Returns (JStr ''a'')) id)"
proof -
  have a: "map_sum id snd (Handler_get validating_env Map.empty ''/raise_422'' None value_func)
     = Inr (validating value_func)"
    by (simp add: Handler_get_def api_route_def Let_def validating_env_def)
  have b: "call (validating value_func) [''value'' \<mapsto> Body (JStr ''a'')]
       = Inl (ValidationError (JList [JStr ''type_error.integer'']))"
    by (simp add: validating_def)
  have c: "call value_func [''value'' \<mapsto> Body (JStr ''a'')]
       = Inr (Completes (Returns (JStr ''a'')) id)"
    by (simp add: value_func_def)
  from b c have "validating value_func \<noteq> value_func"
    by auto
  with a b c show ?thesis
    by simp
qed

end
